theory Spec2Isabelle
  imports Complex_Main "HOL-Library.Char_ord" "HOL-Library.List_Lexorder"
begin

section \<open>Data model\<close>

text \<open>
  The analysis code of the repository works on two pandas frames, the transactions
  (\<^verbatim>\<open>transacciones\<close>) and the budgets (\<^verbatim>\<open>presupuestos\<close>). A frame is modelled as the
  list of its rows, a row as a record with the columns the code reads.

  Conventions of the embedding:
  \<^item> amounts (\<^verbatim>\<open>monto\<close>, \<^verbatim>\<open>monto_maximo\<close>) are IEEE doubles, modelled by their values, which
    are reals; every function of the model takes the arithmetic that computes with them
    as its first argument (see \<open>aritmetica\<close> below);
  \<^item> a frame without rows is the empty list. The frame without columns,
    \<^verbatim>\<open>pd.DataFrame()\<close>, is empty as well, and every function but one tests \<^verbatim>\<open>.empty\<close> first;
    \<^verbatim>\<open>detectar_gastos_inusuales\<close> does not, so its argument is a \<open>marco\<close>;
  \<^item> a Python \<^verbatim>\<open>str\<close> is a \<open>string\<close>, one \<open>char\<close> per code point (code points below 256),
    so that \<open>length\<close> is Python's \<^verbatim>\<open>len\<close> and the order of \<open>Char_ord\<close> and
    \<open>List_Lexorder\<close> is Python's order on \<^verbatim>\<open>str\<close>;
  \<^item> a cell of the \<^verbatim>\<open>fecha\<close> column is either the text the database returned or a
    timestamp (microseconds since the epoch) once \<^verbatim>\<open>pd.to_datetime\<close> has parsed it;
  \<^item> the text of a message is modelled by a constructor that carries the values
    interpolated in the f-string, before they are formatted.
\<close>

datatype celda_fecha = Texto string | Marca int

record transaccion =
  usuario_id :: string
  monto :: real
  categoria :: string
  descripcion :: string
  fecha :: celda_fecha
  tipo :: string

record presupuesto =
  p_usuario_id :: string
  p_categoria :: string
  monto_maximo :: real
  periodo :: string

datatype marco = Sin_columnas | Filas "transaccion list"

datatype error = ZeroDivisionError | ValueError | KeyError

section \<open>Arithmetic\<close>

text \<open>
  The code computes with IEEE doubles, through numpy and pandas. An \<open>aritmetica\<close> holds
  what that arithmetic does: \<open>redondeo\<close> rounds the exact result of an operation to the
  number that is stored, \<open>suma\<close> is \<^verbatim>\<open>Series.sum()\<close>, \<open>suma_grupo\<close> is the sum of one group
  of \<^verbatim>\<open>groupby(...).sum()\<close> and \<open>round_2\<close> is \<^verbatim>\<open>round(x, 2)\<close>. The operations of the code are
  the exact operations followed by \<open>redondeo\<close>, and a decimal literal of the source
  (\<^verbatim>\<open>1.05\<close>) is the rounded decimal.
\<close>

record aritmetica =
  redondeo :: "real \<Rightarrow> real"
  suma :: "real list \<Rightarrow> real"
  suma_grupo :: "real list \<Rightarrow> real"
  round_2 :: "real \<Rightarrow> real"

definition mas :: "aritmetica \<Rightarrow> real \<Rightarrow> real \<Rightarrow> real" where
  "mas ar a b = redondeo ar (a + b)"

definition menos :: "aritmetica \<Rightarrow> real \<Rightarrow> real \<Rightarrow> real" where
  "menos ar a b = redondeo ar (a - b)"

definition por :: "aritmetica \<Rightarrow> real \<Rightarrow> real \<Rightarrow> real" where
  "por ar a b = redondeo ar (a * b)"

definition entre :: "aritmetica \<Rightarrow> real \<Rightarrow> real \<Rightarrow> real" where
  "entre ar a b = redondeo ar (a / b)"

definition raiz :: "aritmetica \<Rightarrow> real \<Rightarrow> real" where
  "raiz ar a = redondeo ar (sqrt a)"

definition literal :: "aritmetica \<Rightarrow> real \<Rightarrow> real" where
  "literal ar x = redondeo ar x"

text \<open>Rounding to the nearest integer, a tie to the even one.\<close>

definition redondeo_par :: "real \<Rightarrow> int" where
  "redondeo_par y =
     (let f = \<lfloor>y\<rfloor> in
      if y - of_int f < 1 / 2 then f
      else if y - of_int f > 1 / 2 then f + 1
      else if even f then f else f + 1)"

definition round2 :: "real \<Rightarrow> real" where
  "round2 x = real_of_int (redondeo_par (x * 100)) / 100"

text \<open>The arithmetic without rounding: every operation is the exact one.\<close>

definition exacta :: aritmetica where
  "exacta = \<lparr>redondeo = (\<lambda>x. x), suma = sum_list, suma_grupo = sum_list, round_2 = round2\<rparr>"

text \<open>
  The arithmetic of doubles. \<open>rd\<close> rounds a real to the nearest number with a
  significand of 53 bits, a tie to the even significand (the exponent is not bounded:
  overflow and subnormal numbers are left out). The sums add from left to right,
  starting from 0 and rounding each addition; this is what numpy does on fewer than
  eight values and what pandas does on a group of one or two values, and the examples
  below stay within that. \<^verbatim>\<open>round(x, 2)\<close> on a numpy double multiplies by 100, rounds to an
  integer and divides by 100.
\<close>

definition rd :: "real \<Rightarrow> real" where
  "rd x =
     (if x = 0 then 0
      else let e = \<lfloor>log 2 \<bar>x\<bar>\<rfloor> - 52
           in of_int (redondeo_par (x / 2 powi e)) * 2 powi e)"

definition suma_doble :: "real list \<Rightarrow> real" where
  "suma_doble xs = foldl (\<lambda>s x. rd (s + x)) 0 xs"

definition doble :: aritmetica where
  "doble = \<lparr>redondeo = rd, suma = suma_doble, suma_grupo = suma_doble,
             round_2 = (\<lambda>x. rd (real_of_int (redondeo_par (rd (x * 100))) / 100))\<rparr>"

section \<open>DataValidator (db\_helpers.py)\<close>

definition validar_monto :: "real \<Rightarrow> bool" where
  "validar_monto m = (m > 0)"

text \<open>
  \<^verbatim>\<open>datetime.strptime(fecha, '%Y-%m-%d')\<close> of CPython: the format becomes the regular
  expression \<^verbatim>\<open>(\d\d\d\d)-(1[0-2]|0[1-9]|[1-9])-(3[0-1]|[1-2]\d|0[1-9]|[1-9]| [1-9])\<close>,
  matched at the start of the text; text left over after the match, a year 0 or a day
  beyond the end of the month raise \<^verbatim>\<open>ValueError\<close>.
\<close>

definition es_digito :: "char \<Rightarrow> bool" where
  "es_digito c = (CHR ''0'' \<le> c \<and> c \<le> CHR ''9'')"

definition valor_digito :: "char \<Rightarrow> nat" where
  "valor_digito c = of_char c - of_char CHR ''0''"

definition bisiesto :: "nat \<Rightarrow> bool" where
  "bisiesto y = (y mod 4 = 0 \<and> (y mod 100 \<noteq> 0 \<or> y mod 400 = 0))"

definition dias_del_mes :: "nat \<Rightarrow> nat \<Rightarrow> nat" where
  "dias_del_mes y m =
     (if m = 2 then (if bisiesto y then 29 else 28)
      else if m = 4 \<or> m = 6 \<or> m = 9 \<or> m = 11 then 30 else 31)"

fun parse_anio :: "string \<Rightarrow> (nat \<times> string) option" where
  "parse_anio (a # b # c # d # r) =
     (if es_digito a \<and> es_digito b \<and> es_digito c \<and> es_digito d
      then Some (1000 * valor_digito a + 100 * valor_digito b + 10 * valor_digito c
                 + valor_digito d, r)
      else None)"
| "parse_anio _ = None"

fun parse_mes :: "string \<Rightarrow> (nat \<times> string) option" where
  "parse_mes (a # b # r) =
     (if a = CHR ''1'' \<and> CHR ''0'' \<le> b \<and> b \<le> CHR ''2'' then Some (10 + valor_digito b, r)
      else if a = CHR ''0'' \<and> CHR ''1'' \<le> b \<and> b \<le> CHR ''9'' then Some (valor_digito b, r)
      else if CHR ''1'' \<le> a \<and> a \<le> CHR ''9'' then Some (valor_digito a, b # r)
      else None)"
| "parse_mes [a] = (if CHR ''1'' \<le> a \<and> a \<le> CHR ''9'' then Some (valor_digito a, []) else None)"
| "parse_mes [] = None"

fun parse_dia :: "string \<Rightarrow> (nat \<times> string) option" where
  "parse_dia (a # b # r) =
     (if a = CHR ''3'' \<and> CHR ''0'' \<le> b \<and> b \<le> CHR ''1'' then Some (30 + valor_digito b, r)
      else if CHR ''1'' \<le> a \<and> a \<le> CHR ''2'' \<and> es_digito b
        then Some (10 * valor_digito a + valor_digito b, r)
      else if a = CHR ''0'' \<and> CHR ''1'' \<le> b \<and> b \<le> CHR ''9'' then Some (valor_digito b, r)
      else if CHR ''1'' \<le> a \<and> a \<le> CHR ''9'' then Some (valor_digito a, b # r)
      else if a = CHR '' '' \<and> CHR ''1'' \<le> b \<and> b \<le> CHR ''9'' then Some (valor_digito b, r)
      else None)"
| "parse_dia [a] = (if CHR ''1'' \<le> a \<and> a \<le> CHR ''9'' then Some (valor_digito a, []) else None)"
| "parse_dia [] = None"

fun guion :: "string \<Rightarrow> string option" where
  "guion (c # r) = (if c = CHR ''-'' then Some r else None)"
| "guion [] = None"

definition strptime_Ymd :: "string \<Rightarrow> error + (nat \<times> nat \<times> nat)" where
  "strptime_Ymd s =
     (case parse_anio s of None \<Rightarrow> Inl ValueError | Some (y, r1) \<Rightarrow>
     (case guion r1 of None \<Rightarrow> Inl ValueError | Some r2 \<Rightarrow>
     (case parse_mes r2 of None \<Rightarrow> Inl ValueError | Some (m, r3) \<Rightarrow>
     (case guion r3 of None \<Rightarrow> Inl ValueError | Some r4 \<Rightarrow>
     (case parse_dia r4 of None \<Rightarrow> Inl ValueError | Some (d, r5) \<Rightarrow>
        if r5 \<noteq> [] then Inl ValueError
        else if y < 1 \<or> d > dias_del_mes y m then Inl ValueError
        else Inr (y, m, d))))))"

definition validar_fecha :: "string \<Rightarrow> bool" where
  "validar_fecha f = (case strptime_Ymd f of Inr _ \<Rightarrow> True | Inl _ \<Rightarrow> False)"

text \<open>
  The messages of \<^verbatim>\<open>validar_transaccion\<close>, in the order of its checks:
  "El monto debe ser mayor a 0", "Categoria invalida", "Descripcion muy corta (minimo 3
  caracteres)", "Fecha invalida (formato: YYYY-MM-DD)", "Tipo debe ser 'ingreso' o 'gasto'".
\<close>

datatype error_validacion =
  Monto_no_positivo | Categoria_invalida | Descripcion_corta | Fecha_invalida | Tipo_invalido

record validacion =
  valido :: bool
  errores :: "error_validacion list"

definition validar_transaccion ::
  "real \<Rightarrow> string \<Rightarrow> string \<Rightarrow> string \<Rightarrow> string \<Rightarrow> validacion" where
  "validar_transaccion m c d f t =
     (let errores0 = [];
          errores1 = (if \<not> validar_monto m then errores0 @ [Monto_no_positivo] else errores0);
          errores2 = (if c = [] \<or> length c < 2 then errores1 @ [Categoria_invalida] else errores1);
          errores3 = (if d = [] \<or> length d < 3 then errores2 @ [Descripcion_corta] else errores2);
          errores4 = (if \<not> validar_fecha f then errores3 @ [Fecha_invalida] else errores3);
          errores5 = (if t \<notin> set [''ingreso'', ''gasto''] then errores4 @ [Tipo_invalido]
                      else errores4)
      in \<lparr>valido = (length errores5 = 0), errores = errores5\<rparr>)"

section \<open>DataAnalyzer (db\_helpers.py)\<close>

text \<open>
  \<^verbatim>\<open>df.groupby('categoria')['monto'].sum()\<close>: one entry per category of the frame, the
  categories in ascending order (pandas sorts the group keys), each with the sum of its
  amounts. \<^verbatim>\<open>idxmax\<close> and \<^verbatim>\<open>max\<close> give the label and the value of the first
  largest entry.
\<close>

definition groupby_categoria_sum ::
  "aritmetica \<Rightarrow> transaccion list \<Rightarrow> (string \<times> real) list" where
  "groupby_categoria_sum ar df =
     map (\<lambda>c. (c, suma_grupo ar (map monto (filter (\<lambda>t. categoria t = c) df))))
         (sort (remdups (map categoria df)))"

primrec primer_maximo :: "string \<times> real \<Rightarrow> (string \<times> real) list \<Rightarrow> string \<times> real" where
  "primer_maximo b [] = b"
| "primer_maximo b (x # xs) = primer_maximo (if snd x > snd b then x else b) xs"

definition idxmax :: "(string \<times> real) list \<Rightarrow> string option" where
  "idxmax s = (case s of [] \<Rightarrow> None | x # xs \<Rightarrow> Some (fst (primer_maximo x xs)))"


text \<open>
  \<^verbatim>\<open>Series.mean()\<close> divides the sum by the count. \<^verbatim>\<open>Series.std()\<close> is the sample standard
  deviation (\<^verbatim>\<open>ddof=1\<close>): pandas squares the differences \<^verbatim>\<open>avg - values\<close>, divides their sum
  by the count less one and takes the root; on fewer than two values it is NaN, here
  \<open>None\<close>.
\<close>

definition mean :: "aritmetica \<Rightarrow> real list \<Rightarrow> real" where
  "mean ar xs = entre ar (suma ar xs) (real (length xs))"

definition std :: "aritmetica \<Rightarrow> real list \<Rightarrow> real option" where
  "std ar xs =
     (if length xs < 2 then None
      else Some (raiz ar (entre ar
             (suma ar (map (\<lambda>x. por ar (menos ar (mean ar xs) x) (menos ar (mean ar xs) x)) xs))
             (real (length xs - 1)))))"



text \<open>
  \<^verbatim>\<open>detectar_gastos_inusuales\<close> indexes the column \<^verbatim>\<open>tipo\<close> at once, which raises
  \<^verbatim>\<open>KeyError\<close> on the frame without columns. A comparison with NaN is false, so a single
  expense is never reported.
\<close>

fun detectar_gastos_inusuales ::
  "aritmetica \<Rightarrow> marco \<Rightarrow> real \<Rightarrow> error + transaccion list" where
  "detectar_gastos_inusuales ar Sin_columnas umbral_desviacion = Inl KeyError"
| "detectar_gastos_inusuales ar (Filas df) umbral_desviacion =
     (let gastos = filter (\<lambda>t. tipo t = ''gasto'') df in
      if gastos = [] then Inr []
      else
        let mean_v = mean ar (map monto gastos);
            std_v = std ar (map monto gastos)
        in Inr (filter (\<lambda>t. case std_v of None \<Rightarrow> False
                        | Some s \<Rightarrow> monto t > mas ar mean_v (por ar umbral_desviacion s))
                  gastos))"

text \<open>
  \<^verbatim>\<open>calcular_tendencia\<close> assigns the parsed dates to the \<^verbatim>\<open>fecha\<close> column of the frame it
  was given, so the model returns the frame as the call leaves it, next to the result.
  \<^verbatim>\<open>pd.to_datetime\<close> on a text is the parameter \<open>parse\<close> (\<open>None\<close> where pandas raises);
  the two readings of the clock, \<^verbatim>\<open>datetime.now()\<close>, are the parameters \<open>ahora1\<close> and
  \<open>ahora2\<close>, in microseconds.
\<close>

fun to_datetime_celda :: "(string \<Rightarrow> int option) \<Rightarrow> celda_fecha \<Rightarrow> int option" where
  "to_datetime_celda parse (Texto s) = parse s"
| "to_datetime_celda parse (Marca m) = Some m"

fun to_datetime :: "(string \<Rightarrow> int option) \<Rightarrow> celda_fecha list \<Rightarrow> int list option" where
  "to_datetime parse [] = Some []"
| "to_datetime parse (c # cs) =
     (case to_datetime_celda parse c of None \<Rightarrow> None
      | Some m \<Rightarrow> (case to_datetime parse cs of None \<Rightarrow> None | Some ms \<Rightarrow> Some (m # ms)))"

definition timedelta_days :: "int \<Rightarrow> int" where
  "timedelta_days d = d * 86400000000"

record resultado_tendencia =
  tendencia :: string
  variacion_porcentual :: real
  gasto_periodo_1 :: "real option"
  gasto_periodo_2 :: "real option"

definition calcular_tendencia ::
  "aritmetica \<Rightarrow> (string \<Rightarrow> int option) \<Rightarrow> int \<Rightarrow> int \<Rightarrow> transaccion list \<Rightarrow> int
     \<Rightarrow> error + (transaccion list \<times> resultado_tendencia)" where
  "calcular_tendencia ar parse ahora1 ahora2 df dias =
     (if df = [] then
        Inr (df, \<lparr>tendencia = ''neutral'', variacion_porcentual = 0,
                  gasto_periodo_1 = None, gasto_periodo_2 = None\<rparr>)
      else
        case to_datetime parse (map fecha df) of
          None \<Rightarrow> Inl ValueError
        | Some fechas \<Rightarrow>
            let df' = map (\<lambda>(t, m). t\<lparr>fecha := Marca m\<rparr>) (zip df fechas);
                fecha_limite = ahora1 - timedelta_days dias;
                fecha_mitad = ahora2 - timedelta_days (dias div 2);
                primera_mitad = suma ar (map (monto \<circ> fst)
                  (filter (\<lambda>(t, m). m \<ge> fecha_limite \<and> m < fecha_mitad \<and> tipo t = ''gasto'')
                     (zip df fechas)));
                segunda_mitad = suma ar (map (monto \<circ> fst)
                  (filter (\<lambda>(t, m). m \<ge> fecha_mitad \<and> tipo t = ''gasto'') (zip df fechas)))
            in if primera_mitad = 0 then
                 Inr (df', \<lparr>tendencia = ''sin_datos'', variacion_porcentual = 0,
                            gasto_periodo_1 = None, gasto_periodo_2 = None\<rparr>)
               else
                 let variacion =
                       por ar (entre ar (menos ar segunda_mitad primera_mitad) primera_mitad) 100;
                     tend = (if variacion > 10 then ''creciente''
                             else if variacion < - 10 then ''decreciente''
                             else ''estable'')
                 in Inr (df', \<lparr>tendencia = tend, variacion_porcentual = round_2 ar variacion,
                                gasto_periodo_1 = Some primera_mitad,
                                gasto_periodo_2 = Some segunda_mitad\<rparr>))"

section \<open>AlertGenerator (db\_helpers.py)\<close>

text \<open>
  In \<^verbatim>\<open>verificar_presupuestos\<close> the spend \<^verbatim>\<open>gastos_por_categoria[categoria]\<close> is a numpy
  scalar, and a numpy scalar divided by zero is no exception: it is \<^verbatim>\<open>inf\<close>, \<^verbatim>\<open>-inf\<close> or
  \<^verbatim>\<open>nan\<close> (with a warning). \<open>npfloat\<close> is a real or one of these three, with the
  comparison \<^verbatim>\<open>>=\<close> of IEEE, false on \<^verbatim>\<open>nan\<close>.
\<close>

datatype npfloat = Fin real | PInf | NInf | NaN

definition np_truediv :: "aritmetica \<Rightarrow> real \<Rightarrow> real \<Rightarrow> npfloat" where
  "np_truediv ar a b =
     (if b \<noteq> 0 then Fin (entre ar a b)
      else if a > 0 then PInf else if a < 0 then NInf else NaN)"

fun np_por_100 :: "aritmetica \<Rightarrow> npfloat \<Rightarrow> npfloat" where
  "np_por_100 ar (Fin x) = Fin (por ar x 100)"
| "np_por_100 ar PInf = PInf"
| "np_por_100 ar NInf = NInf"
| "np_por_100 ar NaN = NaN"

fun np_ge :: "npfloat \<Rightarrow> real \<Rightarrow> bool" where
  "np_ge (Fin x) r = (x \<ge> r)"
| "np_ge PInf r = True"
| "np_ge NInf r = False"
| "np_ge NaN r = False"

text \<open>
  The two messages: "Has excedido el presupuesto en \<open>categoria\<close> por \<open>gasto_actual - limite\<close>
  (\<open>porcentaje\<close>%)" and "Estas cerca del limite en \<open>categoria\<close>: \<open>gasto_actual\<close> de
  \<open>limite\<close> (\<open>porcentaje\<close>%)".
\<close>

datatype mensaje =
  Has_excedido string real npfloat
| Estas_cerca string real real npfloat

record alerta =
  a_tipo :: string
  severidad :: string
  mensaje :: mensaje
  a_categoria :: string
  gasto_actual :: real
  limite :: real

text \<open>The loop over the budget rows of the user, appending to \<^verbatim>\<open>alertas\<close>.\<close>

fun bucle_presupuestos ::
  "aritmetica \<Rightarrow> (string \<times> real) list \<Rightarrow> presupuesto list \<Rightarrow> alerta list \<Rightarrow> alerta list" where
  "bucle_presupuestos ar gastos_por_categoria [] alertas = alertas"
| "bucle_presupuestos ar gastos_por_categoria (p # ps) alertas =
     (let cat = p_categoria p; limite_p = monto_maximo p in
      case map_of gastos_por_categoria cat of
        None \<Rightarrow> bucle_presupuestos ar gastos_por_categoria ps alertas
      | Some gasto_p \<Rightarrow>
          let porcentaje = np_por_100 ar (np_truediv ar gasto_p limite_p) in
          if gasto_p > limite_p then
            bucle_presupuestos ar gastos_por_categoria ps
              (alertas @ [\<lparr>a_tipo = ''presupuesto_excedido'', severidad = ''alta'',
                           mensaje = Has_excedido cat (menos ar gasto_p limite_p) porcentaje,
                           a_categoria = cat, gasto_actual = gasto_p, limite = limite_p\<rparr>])
          else if np_ge porcentaje 80 then
            bucle_presupuestos ar gastos_por_categoria ps
              (alertas @ [\<lparr>a_tipo = ''presupuesto_cerca_limite'', severidad = ''media'',
                           mensaje = Estas_cerca cat gasto_p limite_p porcentaje,
                           a_categoria = cat, gasto_actual = gasto_p, limite = limite_p\<rparr>])
          else bucle_presupuestos ar gastos_por_categoria ps alertas)"

definition verificar_presupuestos ::
  "aritmetica \<Rightarrow> transaccion list \<Rightarrow> presupuesto list \<Rightarrow> string \<Rightarrow> alerta list" where
  "verificar_presupuestos ar df_transacciones df_presupuestos uid =
     (if df_transacciones = [] \<or> df_presupuestos = [] then []
      else
        let gastos_usuario =
              filter (\<lambda>t. usuario_id t = uid \<and> tipo t = ''gasto'') df_transacciones
        in if gastos_usuario = [] then []
           else
             let gastos_por_categoria = groupby_categoria_sum ar gastos_usuario;
                 presupuestos_usuario = filter (\<lambda>p. p_usuario_id p = uid) df_presupuestos
             in bucle_presupuestos ar gastos_por_categoria presupuestos_usuario [])"

section \<open>AsesorFinanciero (app.py)\<close>

text \<open>
  The recommendations: "No hay suficientes datos para generar recomendaciones",
  "Considera aumentar tu tasa de ahorro al menos al 10% de tus ingresos", "Excelente! Estas
  ahorrando mas del 30% de tus ingresos", "Tu mayor gasto es en \<open>categoria\<close>. Revisa si
  puedes optimizarlo", "Continua registrando tus transacciones para mejores analisis".
  The alerts: "Gastos en \<open>categoria\<close> al \<open>porcentaje\<close>% del presupuesto" and "Presupuesto
  excedido en \<open>categoria\<close>! (\<open>porcentaje\<close>%)".
\<close>

datatype recomendacion =
  No_hay_datos | Aumentar_ahorro | Excelente_ahorro | Mayor_gasto string | Continua_registrando

datatype alerta_asesor = Gastos_al string real | Presupuesto_excedido string real

record resumen =
  total_ingresos :: real
  total_gastos :: real
  ahorro_neto :: real
  tasa_ahorro :: real

record predicciones =
  ahorro_3_meses :: real
  proyeccion_gastos :: real

record analisis =
  resumen :: resumen
  recomendaciones :: "recomendacion list"
  alertas :: "alerta_asesor list"
  predicciones :: predicciones

text \<open>
  \<^verbatim>\<open>presupuestos.set_index('categoria')['monto_maximo'].to_dict()\<close>: of two rows with one
  category the later one stays (\<open>map_of\<close> finds the first entry of the reversed list).
\<close>

definition presupuestos_dict :: "presupuesto list \<Rightarrow> (string \<rightharpoonup> real)" where
  "presupuestos_dict ps = map_of (rev (map (\<lambda>p. (p_categoria p, monto_maximo p)) ps))"

text \<open>
  The loop over \<^verbatim>\<open>gastos_por_categoria.items()\<close>. Here \<^verbatim>\<open>gasto\<close> and \<^verbatim>\<open>presupuesto\<close> are
  Python numbers (\<^verbatim>\<open>items()\<close> and \<^verbatim>\<open>to_dict()\<close> unbox the numpy values), so a budget of
  zero raises \<^verbatim>\<open>ZeroDivisionError\<close>. The comparison with 90 comes before the one with 100,
  as in the source.
\<close>

fun bucle_asesor ::
  "aritmetica \<Rightarrow> (string \<rightharpoonup> real) \<Rightarrow> (string \<times> real) list \<Rightarrow> alerta_asesor list
     \<Rightarrow> error + alerta_asesor list" where
  "bucle_asesor ar d [] als = Inr als"
| "bucle_asesor ar d ((cat, gasto) # r) als =
     (case d cat of
        None \<Rightarrow> bucle_asesor ar d r als
      | Some presup \<Rightarrow>
          if presup = 0 then Inl ZeroDivisionError
          else
            let porcentaje = por ar (entre ar gasto presup) 100 in
            if porcentaje > 90 then bucle_asesor ar d r (als @ [Gastos_al cat porcentaje])
            else if porcentaje > 100 then
              bucle_asesor ar d r (als @ [Presupuesto_excedido cat porcentaje])
            else bucle_asesor ar d r als)"

definition get_analisis_ia ::
  "aritmetica \<Rightarrow> transaccion list \<Rightarrow> presupuesto list \<Rightarrow> error + analisis" where
  "get_analisis_ia ar transacciones presupuestos =
     (if transacciones = [] then
        Inr \<lparr>resumen = \<lparr>total_ingresos = 0, total_gastos = 0, ahorro_neto = 0, tasa_ahorro = 0\<rparr>,
             recomendaciones = [No_hay_datos],
             alertas = [],
             predicciones = \<lparr>ahorro_3_meses = 0, proyeccion_gastos = 0\<rparr>\<rparr>
      else
        let gastos_por_categoria =
              groupby_categoria_sum ar (filter (\<lambda>t. tipo t = ''gasto'') transacciones);
            total_g = suma ar (map snd gastos_por_categoria);
            total_i = suma ar (map monto (filter (\<lambda>t. tipo t = ''ingreso'') transacciones))
        in case (if presupuestos \<noteq> []
                 then bucle_asesor ar (presupuestos_dict presupuestos) gastos_por_categoria []
                 else Inr []) of
             Inl e \<Rightarrow> Inl e
           | Inr als \<Rightarrow>
               let recs1 =
                     (if total_i > 0 then
                        (let tasa = por ar (entre ar (menos ar total_i total_g) total_i) 100 in
                         if tasa < 10 then [Aumentar_ahorro]
                         else if tasa > 30 then [Excelente_ahorro] else [])
                      else []);
                   recs2 =
                     (if gastos_por_categoria \<noteq> [] then
                        (case idxmax gastos_por_categoria of
                           Some categoria_mayor \<Rightarrow> recs1 @ [Mayor_gasto categoria_mayor]
                         | None \<Rightarrow> recs1)
                      else recs1)
               in Inr \<lparr>resumen =
                         \<lparr>total_ingresos = total_i,
                          total_gastos = total_g,
                          ahorro_neto = menos ar total_i total_g,
                          tasa_ahorro =
                            (if total_i > 0
                             then por ar (entre ar (menos ar total_i total_g) total_i) 100
                             else 0)\<rparr>,
                       recomendaciones = (if recs2 \<noteq> [] then recs2 else [Continua_registrando]),
                       alertas = als,
                       predicciones =
                         \<lparr>ahorro_3_meses =
                            por ar (por ar (menos ar total_i total_g) 3) (literal ar (105 / 100)),
                          proyeccion_gastos = por ar total_g (literal ar (102 / 100))\<rparr>\<rparr>)"

section \<open>Notions used in the statements\<close>

text \<open>What one entry of \<^verbatim>\<open>gastos_por_categoria\<close> adds to the alerts of the advisor.\<close>

definition alertas_de ::
  "aritmetica \<Rightarrow> (string \<rightharpoonup> real) \<Rightarrow> string \<times> real \<Rightarrow> alerta_asesor list" where
  "alertas_de ar d x =
     (case d (fst x) of None \<Rightarrow> []
      | Some b \<Rightarrow>
          if por ar (entre ar (snd x) b) 100 > 90
          then [Gastos_al (fst x) (por ar (entre ar (snd x) b) 100)] else [])"

definition bucle_de ::
  "aritmetica \<Rightarrow> transaccion list \<Rightarrow> presupuesto list \<Rightarrow> error + alerta_asesor list" where
  "bucle_de ar ts ps =
     (if ps \<noteq> []
      then bucle_asesor ar (presupuestos_dict ps)
             (groupby_categoria_sum ar (filter (\<lambda>t. tipo t = ''gasto'') ts)) []
      else Inr [])"

text \<open>The rules of \<^verbatim>\<open>validar_transaccion\<close> in the words of the specification.\<close>

fun regla_violada ::
  "real \<Rightarrow> string \<Rightarrow> string \<Rightarrow> string \<Rightarrow> string \<Rightarrow> error_validacion \<Rightarrow> bool" where
  "regla_violada m c d f t Monto_no_positivo = (m \<le> 0)"
| "regla_violada m c d f t Categoria_invalida = (length c < 2)"
| "regla_violada m c d f t Descripcion_corta = (length d < 3)"
| "regla_violada m c d f t Fecha_invalida = (\<not> validar_fecha f)"
| "regla_violada m c d f t Tipo_invalido = (t \<noteq> ''ingreso'' \<and> t \<noteq> ''gasto'')"

text \<open>
  What one budget row adds to the alerts of \<^verbatim>\<open>verificar_presupuestos\<close> (the body of its
  loop); the spend of a user in a category as the code computes it, the sum of the group;
  and the percentage \<^verbatim>\<open>(gasto_actual / limite) * 100\<close> as the code computes it.
\<close>

definition utilizacion :: "aritmetica \<Rightarrow> real \<Rightarrow> real \<Rightarrow> npfloat" where
  "utilizacion ar g l = np_por_100 ar (np_truediv ar g l)"

definition alerta_de_fila ::
  "aritmetica \<Rightarrow> (string \<times> real) list \<Rightarrow> presupuesto \<Rightarrow> alerta list" where
  "alerta_de_fila ar gpc p =
     (case map_of gpc (p_categoria p) of
        None \<Rightarrow> []
      | Some g \<Rightarrow>
          if g > monto_maximo p then
            [\<lparr>a_tipo = ''presupuesto_excedido'', severidad = ''alta'',
              mensaje = Has_excedido (p_categoria p) (menos ar g (monto_maximo p))
                          (utilizacion ar g (monto_maximo p)),
              a_categoria = p_categoria p, gasto_actual = g, limite = monto_maximo p\<rparr>]
          else if np_ge (utilizacion ar g (monto_maximo p)) 80 then
            [\<lparr>a_tipo = ''presupuesto_cerca_limite'', severidad = ''media'',
              mensaje = Estas_cerca (p_categoria p) g (monto_maximo p)
                          (utilizacion ar g (monto_maximo p)),
              a_categoria = p_categoria p, gasto_actual = g, limite = monto_maximo p\<rparr>]
          else [])"

definition gasto_en :: "aritmetica \<Rightarrow> transaccion list \<Rightarrow> string \<Rightarrow> string \<Rightarrow> real" where
  "gasto_en ar ts u c =
     suma_grupo ar
       (map monto (filter (\<lambda>t. usuario_id t = u \<and> tipo t = ''gasto'' \<and> categoria t = c) ts))"

text \<open>The value of \<^verbatim>\<open>pd.to_datetime\<close> on the one date of the examples (midnight, UTC).\<close>

definition parse_ejemplo :: "string \<Rightarrow> int option" where
  "parse_ejemplo s = (if s = ''2024-01-15'' then Some 1705276800000000 else None)"

definition ej_gasto :: "real \<Rightarrow> transaccion" where
  "ej_gasto m = \<lparr>usuario_id = ''u1'', monto = m, categoria = ''Food'', descripcion = ''lunch'',
                 fecha = Texto ''2024-01-15'', tipo = ''gasto''\<rparr>"

definition ej_ingreso :: transaccion where
  "ej_ingreso = \<lparr>usuario_id = ''u1'', monto = 200, categoria = ''Salary'', descripcion = ''pay'',
                 fecha = Texto ''2024-01-15'', tipo = ''ingreso''\<rparr>"

definition ej_presupuesto :: "real \<Rightarrow> presupuesto" where
  "ej_presupuesto l = \<lparr>p_usuario_id = ''u1'', p_categoria = ''Food'', monto_maximo = l,
                       periodo = ''mensual''\<rparr>"

text \<open>Five expenses of 10, 10, 10, 10 and 1000.\<close>

definition ej_cinco_gastos :: "transaccion list" where
  "ej_cinco_gastos = [ej_gasto 10, ej_gasto 10, ej_gasto 10, ej_gasto 10, ej_gasto 1000]"



section \<open>Evaluating the arithmetic\<close>

lemma exacta_ops:
  "mas exacta a b = a + b" "menos exacta a b = a - b" "por exacta a b = a * b"
  "entre exacta a b = a / b" "raiz exacta a = sqrt a" "literal exacta a = a"
  "redondeo exacta a = a" "suma exacta = sum_list" "suma_grupo exacta = sum_list"
  by (simp_all add: exacta_def mas_def menos_def por_def entre_def raiz_def literal_def)

lemma doble_ops:
  "mas doble a b = rd (a + b)" "menos doble a b = rd (a - b)" "por doble a b = rd (a * b)"
  "entre doble a b = rd (a / b)" "raiz doble a = rd (sqrt a)" "literal doble a = rd a"
  "redondeo doble a = rd a" "suma doble = suma_doble" "suma_grupo doble = suma_doble"
  by (simp_all add: doble_def mas_def menos_def por_def entre_def raiz_def literal_def)

lemma rd_0: "rd 0 = 0"
  by (simp add: rd_def)

lemma rd_entre:
  fixes k :: nat
  assumes "2 ^ k \<le> \<bar>x\<bar>" and "\<bar>x\<bar> < 2 * 2 ^ k"
  shows "rd x = of_int (redondeo_par (x * 2 ^ 52 / 2 ^ k)) * 2 ^ k / 2 ^ 52"
proof -
  have "(0::real) < 2 ^ k" by simp
  with assms(1) have pos: "0 < \<bar>x\<bar>" by linarith
  have "2 powr of_int (int k) \<le> \<bar>x\<bar> \<and> \<bar>x\<bar> < 2 powr of_int (int k + 1)"
    using assms by (simp add: powr_realpow powr_add)
  with pos have l: "\<lfloor>log 2 \<bar>x\<bar>\<rfloor> = int k"
    by (simp add: floor_log_eq_powr_iff)
  have p: "(2::real) powi (int k - 52) = 2 ^ k / 2 ^ 52"
    by (simp add: power_int_diff)
  have "rd x = of_int (redondeo_par (x / (2 ^ k / 2 ^ 52))) * (2 ^ k / 2 ^ 52)"
    using pos unfolding rd_def l Let_def p by simp
  then show ?thesis by simp
qed

lemma rd_frac:
  fixes k :: nat
  assumes "1 \<le> \<bar>x\<bar> * 2 ^ k" and "\<bar>x\<bar> * 2 ^ k < 2"
  shows "rd x = of_int (redondeo_par (x * 2 ^ k * 2 ^ 52)) / (2 ^ k * 2 ^ 52)"
proof -
  have k: "(0::real) < 2 ^ k" by simp
  have pos: "0 < \<bar>x\<bar>"
  proof (rule ccontr)
    assume "\<not> 0 < \<bar>x\<bar>"
    then have "\<bar>x\<bar> = 0" by simp
    with assms(1) show False by simp
  qed
  have a: "1 / 2 ^ k \<le> \<bar>x\<bar>" using assms(1) k by (simp add: field_simps)
  have b: "\<bar>x\<bar> < 2 / 2 ^ k" using assms(2) k by (simp add: field_simps)
  have e1: "(2::real) powr (- real k) = 1 / 2 ^ k"
    by (simp add: powr_minus powr_realpow divide_simps)
  have e2: "(2::real) powr (1 - real k) = 2 / 2 ^ k"
    by (simp add: powr_diff powr_realpow)
  have "2 powr of_int (- int k) \<le> \<bar>x\<bar> \<and> \<bar>x\<bar> < 2 powr of_int (- int k + 1)"
    using a b by (simp add: e1 e2)
  with pos have l: "\<lfloor>log 2 \<bar>x\<bar>\<rfloor> = - int k"
    by (simp add: floor_log_eq_powr_iff)
  have p: "(2::real) powi (- int k - 52) = 1 / (2 ^ k * 2 ^ 52)"
    by (simp add: power_int_diff power_int_minus field_simps)
  have "rd x = of_int (redondeo_par (x / (1 / (2 ^ k * 2 ^ 52)))) * (1 / (2 ^ k * 2 ^ 52))"
    using pos unfolding rd_def l Let_def p by simp
  then show ?thesis by (simp add: mult.assoc)
qed


lemma rd_enteros:
  "rd 10 = 10" "rd 20 = 20" "rd 50 = 50" "rd 79 = 79" "rd 80 = 80" "rd 120 = 120"
  by (simp_all add: rd_entre [of 3] rd_entre [of 4] rd_entre [of 5] rd_entre [of 6]
        redondeo_par_def)

lemma rd_120_100:
  "rd (120 / 100) = 5404319552844595 / 4503599627370496"
  "rd (5404319552844595 / 4503599627370496 * 100) = 120"
  by (simp_all add: rd_entre [of 0] rd_entre [of 6] redondeo_par_def)

lemma rd_80_100:
  "rd (80 / 100) = 3602879701896397 / 4503599627370496"
  "rd (3602879701896397 / 4503599627370496 * 100) = 80"
  by (simp_all add: rd_frac [of _ 1] rd_entre [of 6] redondeo_par_def)

lemma rd_79_100:
  "rd (79 / 100) = 889460926405673 / 1125899906842624"
  "rd (889460926405673 / 1125899906842624 * 100) = 79"
  by (simp_all add: rd_frac [of _ 1] rd_entre [of 6] redondeo_par_def)

lemma rd_decimos:
  "rd (1 / 10) = 3602879701896397 / 36028797018963968"
  "rd (11 / 10) = 2476979795053773 / 2251799813685248"
  by (simp_all add: rd_frac [of _ 4] rd_entre [of 0] redondeo_par_def)

lemma rd_sumas_decimos:
  "rd (3602879701896397 / 36028797018963968) = 3602879701896397 / 36028797018963968"
  "rd (43234556422756765 / 36028797018963968) = 1351079888211149 / 1125899906842624"
  "rd (1351079888211149 / 1125899906842624) = 1351079888211149 / 1125899906842624"
  "rd (46837436124653165 / 36028797018963968) = 2927339757790823 / 2251799813685248"
  "rd (3602879701896397 / 18014398509481984) = 3602879701896397 / 18014398509481984"
  "rd (23418718062326581 / 18014398509481984) = 5854679515581645 / 4503599627370496"
  by (simp_all add: rd_frac [of _ 4] rd_frac [of _ 3] rd_entre [of 0] redondeo_par_def)


section \<open>Grouping and summation\<close>



lemma groupby_ej: "groupby_categoria_sum ar [ej_gasto m] = [(''Food'', suma_grupo ar [m])]"
  by (simp add: groupby_categoria_sum_def ej_gasto_def)

section \<open>The advisor\<close>

lemma presupuestos_dict_Some:
  "presupuestos_dict ps c = Some v \<Longrightarrow> \<exists>p\<in>set ps. monto_maximo p = v"
  by (auto simp: presupuestos_dict_def dest!: map_of_SomeD)

lemma bucle_asesor_Inr:
  "bucle_asesor ar d gpc acc = Inr out \<Longrightarrow> out = acc @ concat (map (alertas_de ar d) gpc)"
proof (induction ar d gpc acc rule: bucle_asesor.induct)
  case (1 ar d als)
  then show ?case by simp
next
  case (2 ar d cat gasto r als)
  show ?case
  proof (cases "d cat")
    case None
    with 2 show ?thesis by (simp add: alertas_de_def)
  next
    case (Some b)
    show ?thesis
    proof (cases "b = 0")
      case True
      with Some 2 show ?thesis by simp
    next
      case False
      show ?thesis
      proof (cases "por ar (entre ar gasto b) 100 > 90")
        case True
        with Some False 2 show ?thesis by (simp add: alertas_de_def)
      next
        case nine: False
        then have "\<not> por ar (entre ar gasto b) 100 > 100" by simp
        with nine Some False 2 show ?thesis by (simp add: alertas_de_def)
      qed
    qed
  qed
qed

lemma bucle_asesor_total:
  "\<forall>x\<in>set gpc. d (fst x) \<noteq> Some 0 \<Longrightarrow> \<exists>out. bucle_asesor ar d gpc acc = Inr out"
proof (induction ar d gpc acc rule: bucle_asesor.induct)
  case (1 ar d als)
  then show ?case by simp
next
  case (2 ar d cat gasto r als)
  then show ?case
    by (cases "d cat") (simp_all add: Let_def)
qed

lemma get_analisis_ia_total:
  assumes "\<forall>p\<in>set ps. monto_maximo p \<noteq> 0"
  shows "\<exists>r. get_analisis_ia ar ts ps = Inr r"
proof -
  have "\<And>c. presupuestos_dict ps c \<noteq> Some 0"
    using assms presupuestos_dict_Some by blast
  then have "\<exists>out. bucle_asesor ar (presupuestos_dict ps)
       (groupby_categoria_sum ar (filter (\<lambda>t. tipo t = ''gasto'') ts)) [] = Inr out"
    by (intro bucle_asesor_total) simp
  then obtain out where "bucle_asesor ar (presupuestos_dict ps)
       (groupby_categoria_sum ar (filter (\<lambda>t. tipo t = ''gasto'') ts)) [] = Inr out" ..
  then show ?thesis
    by (simp add: get_analisis_ia_def Let_def)
qed


lemma get_analisis_ia_resumen:
  assumes "get_analisis_ia ar ts ps = Inr r" and "redondeo ar 0 = 0"
  shows "ahorro_neto (resumen r) = menos ar (total_ingresos (resumen r)) (total_gastos (resumen r))
    \<and> tasa_ahorro (resumen r) =
           (if total_ingresos (resumen r) > 0
            then por ar (entre ar (ahorro_neto (resumen r)) (total_ingresos (resumen r))) 100
            else 0)"
proof (cases "ts = []")
  case True
  with assms(1) have
    "resumen r = \<lparr>total_ingresos = 0, total_gastos = 0, ahorro_neto = 0, tasa_ahorro = 0\<rparr>"
    by (auto simp: get_analisis_ia_def)
  with assms(2) show ?thesis by (simp add: menos_def)
next
  case False
  show ?thesis
  proof (cases "bucle_de ar ts ps")
    case (Inl e)
    with False assms(1) show ?thesis by (simp add: get_analisis_ia_def bucle_de_def Let_def)
  next
    case (Inr als)
    with False assms(1) show ?thesis
      by (auto simp add: get_analisis_ia_def bucle_de_def Let_def)
  qed
qed

lemma get_analisis_ia_alertas:
  assumes "get_analisis_ia ar ts ps = Inr r"
  shows "alertas r = (if ts = [] \<or> ps = [] then []
     else concat (map (alertas_de ar (presupuestos_dict ps))
            (groupby_categoria_sum ar (filter (\<lambda>t. tipo t = ''gasto'') ts))))"
proof (cases "ts = []")
  case True
  with assms show ?thesis by (auto simp: get_analisis_ia_def)
next
  case False
  show ?thesis
  proof (cases "bucle_de ar ts ps")
    case (Inl e)
    with False assms show ?thesis by (simp add: get_analisis_ia_def bucle_de_def Let_def)
  next
    case (Inr als)
    with False assms have "alertas r = als"
      by (auto simp add: get_analisis_ia_def bucle_de_def Let_def)
    moreover have "als = (if ps = [] then []
       else concat (map (alertas_de ar (presupuestos_dict ps))
              (groupby_categoria_sum ar (filter (\<lambda>t. tipo t = ''gasto'') ts))))"
      using Inr bucle_asesor_Inr [of ar "presupuestos_dict ps" _ "[]" als]
      by (auto simp: bucle_de_def split: if_splits)
    ultimately show ?thesis using False by simp
  qed
qed

lemma get_analisis_ia_ej:
  "get_analisis_ia exacta [ej_gasto 120, ej_ingreso] [ej_presupuesto 100] =
   Inr \<lparr>resumen = \<lparr>total_ingresos = 200, total_gastos = 120, ahorro_neto = 80, tasa_ahorro = 40\<rparr>,
        recomendaciones = [Excelente_ahorro, Mayor_gasto ''Food''],
        alertas = [Gastos_al ''Food'' 120],
        predicciones = \<lparr>ahorro_3_meses = 252, proyeccion_gastos = 612 / 5\<rparr>\<rparr>"
proof -
  have f: "filter (\<lambda>t. tipo t = ''gasto'') [ej_gasto 120, ej_ingreso] = [ej_gasto 120]"
    by (simp add: ej_gasto_def ej_ingreso_def)
  have i: "filter (\<lambda>t. tipo t = ''ingreso'') [ej_gasto 120, ej_ingreso] = [ej_ingreso]"
    by (simp add: ej_gasto_def ej_ingreso_def)
  have d: "presupuestos_dict [ej_presupuesto 100] ''Food'' = Some 100"
    by (simp add: presupuestos_dict_def ej_presupuesto_def)
  have m: "monto ej_ingreso = 200" by (simp add: ej_ingreso_def)
  show ?thesis
    unfolding get_analisis_ia_def f i groupby_ej Let_def
    by (simp add: d m idxmax_def exacta_ops)
qed


text \<open>
  Claim C1. Whenever \<^verbatim>\<open>get_analisis_ia\<close> returns an analysis, its summary satisfies
  \<open>ahorro_neto = total_ingresos - total_gastos\<close>, and \<open>tasa_ahorro\<close> is
  \<open>ahorro_neto / total_ingresos * 100\<close> when \<open>total_ingresos > 0\<close> and \<open>0\<close> otherwise, the
  operations being those of the code; this includes the empty collection of transactions,
  where all four are the literal 0 (and 0 - 0 is 0 in any arithmetic that rounds 0 to 0).
  With the exact arithmetic these are the equations between reals. The function does
  return an analysis for all transactions and all budgets whose ceilings are not zero.
\<close>

theorem get_analisis_ia_invariante_resumen:
  "(redondeo ar 0 = 0 \<longrightarrow>
      (\<forall>r. get_analisis_ia ar ts ps = Inr r \<longrightarrow>
          ahorro_neto (resumen r)
            = menos ar (total_ingresos (resumen r)) (total_gastos (resumen r))
        \<and> tasa_ahorro (resumen r) =
            (if total_ingresos (resumen r) > 0
             then por ar (entre ar (ahorro_neto (resumen r)) (total_ingresos (resumen r))) 100
             else 0)))
   \<and> (\<forall>r. get_analisis_ia exacta ts ps = Inr r \<longrightarrow>
        ahorro_neto (resumen r) = total_ingresos (resumen r) - total_gastos (resumen r)
      \<and> tasa_ahorro (resumen r) =
          (if total_ingresos (resumen r) > 0
           then ahorro_neto (resumen r) / total_ingresos (resumen r) * 100 else 0))
   \<and> ((\<forall>p\<in>set ps. monto_maximo p \<noteq> 0) \<longrightarrow> (\<exists>r. get_analisis_ia ar ts ps = Inr r))"
proof (intro conjI impI allI)
  fix r assume "redondeo ar 0 = 0" and "get_analisis_ia ar ts ps = Inr r"
  from get_analisis_ia_resumen [OF this(2) this(1)]
  show "ahorro_neto (resumen r)
            = menos ar (total_ingresos (resumen r)) (total_gastos (resumen r))"
    and "tasa_ahorro (resumen r) =
            (if total_ingresos (resumen r) > 0
             then por ar (entre ar (ahorro_neto (resumen r)) (total_ingresos (resumen r))) 100
             else 0)"
    by blast+
next
  fix r assume r: "get_analisis_ia exacta ts ps = Inr r"
  have z: "redondeo exacta 0 = 0" by (simp add: exacta_ops)
  from get_analisis_ia_resumen [OF r z]
  show "ahorro_neto (resumen r) = total_ingresos (resumen r) - total_gastos (resumen r)"
    and "tasa_ahorro (resumen r) =
          (if total_ingresos (resumen r) > 0
           then ahorro_neto (resumen r) / total_ingresos (resumen r) * 100 else 0)"
    by (simp_all add: exacta_ops)
next
  assume "\<forall>p\<in>set ps. monto_maximo p \<noteq> 0"
  then show "\<exists>r. get_analisis_ia ar ts ps = Inr r" by (rule get_analisis_ia_total)
qed

theorem get_analisis_ia_invariante_resumen_witness:
  "redondeo exacta 0 = 0
   \<and> monto_maximo (ej_presupuesto 100) \<noteq> 0
   \<and> (\<exists>r. get_analisis_ia exacta [ej_gasto 120, ej_ingreso] [ej_presupuesto 100] = Inr r
        \<and> total_ingresos (resumen r) = 200 \<and> total_gastos (resumen r) = 120
        \<and> ahorro_neto (resumen r) = total_ingresos (resumen r) - total_gastos (resumen r)
        \<and> tasa_ahorro (resumen r) = ahorro_neto (resumen r) / total_ingresos (resumen r) * 100)"
proof -
  have h: "monto_maximo (ej_presupuesto 100) \<noteq> 0"
    by (simp add: ej_presupuesto_def)
  have z: "redondeo exacta 0 = 0" by (simp add: exacta_ops)
  show ?thesis
    using h z get_analisis_ia_invariante_resumen
            [of exacta "[ej_gasto 120, ej_ingreso]" "[ej_presupuesto 100]"]
    by (simp add: get_analisis_ia_ej)
qed

text \<open>
  Claim C3. The list of alerts that \<^verbatim>\<open>get_analisis_ia\<close> returns never holds the message
  "Presupuesto excedido": the comparison \<^verbatim>\<open>porcentaje > 90\<close> comes first, so a category
  above 100 per cent of its budget gets the message "Gastos en ... al ...% del presupuesto"
  instead.
\<close>

theorem get_analisis_ia_nunca_excedido:
  "(\<forall>r. get_analisis_ia ar ts ps = Inr r \<longrightarrow>
        (\<forall>a\<in>set (alertas r). \<forall>c x. a \<noteq> Presupuesto_excedido c x))
   \<and> (\<forall>r c g b. get_analisis_ia ar ts ps = Inr r
          \<and> (c, g) \<in> set (groupby_categoria_sum ar (filter (\<lambda>t. tipo t = ''gasto'') ts))
          \<and> presupuestos_dict ps c = Some b \<and> por ar (entre ar g b) 100 > 100
        \<longrightarrow> Gastos_al c (por ar (entre ar g b) 100) \<in> set (alertas r))"
proof (intro conjI allI impI)
  fix r assume r: "get_analisis_ia ar ts ps = Inr r"
  show "\<forall>a\<in>set (alertas r). \<forall>c x. a \<noteq> Presupuesto_excedido c x"
    unfolding get_analisis_ia_alertas [OF r]
    by (auto simp: alertas_de_def split: option.splits if_splits)
next
  fix r c g b
  assume h: "get_analisis_ia ar ts ps = Inr r
          \<and> (c, g) \<in> set (groupby_categoria_sum ar (filter (\<lambda>t. tipo t = ''gasto'') ts))
          \<and> presupuestos_dict ps c = Some b \<and> por ar (entre ar g b) 100 > 100"
  then have ne: "ts \<noteq> []" "ps \<noteq> []"
    by (auto simp: groupby_categoria_sum_def presupuestos_dict_def)
  have "Gastos_al c (por ar (entre ar g b) 100) \<in> set (alertas_de ar (presupuestos_dict ps) (c, g))"
    using h by (simp add: alertas_de_def)
  with h ne show "Gastos_al c (por ar (entre ar g b) 100) \<in> set (alertas r)"
    unfolding get_analisis_ia_alertas [of ar ts ps r, OF conjunct1 [OF h]] by auto
qed

theorem get_analisis_ia_nunca_excedido_witness:
  "(120::real) / 100 * 100 > 100
   \<and> (\<exists>r. get_analisis_ia exacta [ej_gasto 120, ej_ingreso] [ej_presupuesto 100] = Inr r
        \<and> alertas r = [Gastos_al ''Food'' 120]
        \<and> Presupuesto_excedido ''Food'' 120 \<notin> set (alertas r))"
  using get_analisis_ia_nunca_excedido
          [of exacta "[ej_gasto 120, ej_ingreso]" "[ej_presupuesto 100]"]
  by (simp add: get_analisis_ia_ej)







section \<open>The validator\<close>

lemma validar_fecha_ej: "validar_fecha ''2024-01-15''"
  by (simp add: validar_fecha_def strptime_Ymd_def es_digito_def valor_digito_def
        dias_del_mes_def)

lemma validar_fecha_30_febrero: "\<not> validar_fecha ''2024-02-30''"
  by (simp add: validar_fecha_def strptime_Ymd_def es_digito_def valor_digito_def
        dias_del_mes_def bisiesto_def)

text \<open>
  Claim C9. \<^verbatim>\<open>validar_transaccion\<close> with amount -5, category "Food", description "lunch",
  date "2024-01-15" and type "gasto" returns \<open>valido = False\<close> and exactly one error, the one
  of the amount. In general the list of errors holds one entry for each violated rule
  (amount not positive, category shorter than 2, description shorter than 3, date not
  valid, type neither "ingreso" nor "gasto"), all of them and in this order, and \<open>valido\<close>
  says that the list is empty; the function has no failing branch.
\<close>

theorem validar_transaccion_acumula_errores:
  "validar_transaccion (- 5) ''Food'' ''lunch'' ''2024-01-15'' ''gasto''
     = \<lparr>valido = False, errores = [Monto_no_positivo]\<rparr>
   \<and> errores (validar_transaccion m c d f t)
       = filter (regla_violada m c d f t)
           [Monto_no_positivo, Categoria_invalida, Descripcion_corta, Fecha_invalida,
            Tipo_invalido]
   \<and> valido (validar_transaccion m c d f t) = (errores (validar_transaccion m c d f t) = [])"
proof (intro conjI)
  show "validar_transaccion (- 5) ''Food'' ''lunch'' ''2024-01-15'' ''gasto''
     = \<lparr>valido = False, errores = [Monto_no_positivo]\<rparr>"
    by (simp add: validar_transaccion_def validar_monto_def validar_fecha_ej)
  show "errores (validar_transaccion m c d f t)
       = filter (regla_violada m c d f t)
           [Monto_no_positivo, Categoria_invalida, Descripcion_corta, Fecha_invalida,
            Tipo_invalido]"
    by (simp add: validar_transaccion_def validar_monto_def Let_def not_less)
  show "valido (validar_transaccion m c d f t) = (errores (validar_transaccion m c d f t) = [])"
    by (simp add: validar_transaccion_def Let_def)
qed

theorem validar_transaccion_acumula_errores_witness:
  "errores (validar_transaccion 0 ''F'' ''ab'' ''2024-02-30'' ''otro'')
     = [Monto_no_positivo, Categoria_invalida, Descripcion_corta, Fecha_invalida, Tipo_invalido]
   \<and> \<not> valido (validar_transaccion 0 ''F'' ''ab'' ''2024-02-30'' ''otro'')"
  using validar_transaccion_acumula_errores [of 0 "''F''" "''ab''" "''2024-02-30''" "''otro''"]
  by (simp add: validar_fecha_30_febrero)

section \<open>The trend\<close>

text \<open>
  Claim C4, as the code has it. On an empty collection of transactions
  \<^verbatim>\<open>calcular_tendencia\<close> returns the classification "neutral" with
  \<open>variacion_porcentual = 0\<close>, and leaves the collection as it is. ("sin_datos" is the
  answer for transactions whose first half-period has no expense.)
\<close>

theorem calcular_tendencia_vacio:
  "calcular_tendencia ar parse ahora1 ahora2 [] dias
     = Inr ([], \<lparr>tendencia = ''neutral'', variacion_porcentual = 0,
                 gasto_periodo_1 = None, gasto_periodo_2 = None\<rparr>)"
  by (simp add: calcular_tendencia_def)

theorem calcular_tendencia_vacio_witness:
  "calcular_tendencia doble parse_ejemplo 0 0 [] 7
     = Inr ([], \<lparr>tendencia = ''neutral'', variacion_porcentual = 0,
                 gasto_periodo_1 = None, gasto_periodo_2 = None\<rparr>)"
  by (rule calcular_tendencia_vacio)

theorem calcular_tendencia_vacio_no_sin_datos:
  "calcular_tendencia doble parse_ejemplo 1706000000000000 1706000000000001 [] 30
     = Inr ([], \<lparr>tendencia = ''neutral'', variacion_porcentual = 0,
                 gasto_periodo_1 = None, gasto_periodo_2 = None\<rparr>)
   \<and> calcular_tendencia doble parse_ejemplo 1706000000000000 1706000000000001 [] 30
     \<noteq> Inr ([], \<lparr>tendencia = ''sin_datos'', variacion_porcentual = 0,
                 gasto_periodo_1 = None, gasto_periodo_2 = None\<rparr>)"
  by (simp add: calcular_tendencia_def)

section \<open>The budget check\<close>

lemma bucle_presupuestos_concat:
  "bucle_presupuestos ar gpc ps acc = acc @ concat (map (alerta_de_fila ar gpc) ps)"
proof (induction ps arbitrary: acc)
  case Nil
  then show ?case by simp
next
  case (Cons p ps)
  show ?case
  proof (cases "map_of gpc (p_categoria p)")
    case None
    then show ?thesis by (simp add: Cons alerta_de_fila_def)
  next
    case (Some g)
    then show ?thesis by (simp add: Cons alerta_de_fila_def utilizacion_def Let_def)
  qed
qed

lemma map_of_groupby_categoria_sum:
  "map_of (groupby_categoria_sum ar df) c =
     (if c \<in> categoria ` set df
      then Some (suma_grupo ar (map monto (filter (\<lambda>t. categoria t = c) df))) else None)"
  by (simp add: groupby_categoria_sum_def map_of_map_restrict restrict_map_def)

lemma alerta_de_fila_Nil: "alerta_de_fila ar [] p = []"
  by (simp add: alerta_de_fila_def)

lemma verificar_presupuestos_concat:
  "verificar_presupuestos ar ts ps u =
     concat (map (alerta_de_fila ar
                    (groupby_categoria_sum ar
                       (filter (\<lambda>t. usuario_id t = u \<and> tipo t = ''gasto'') ts)))
                 (filter (\<lambda>p. p_usuario_id p = u) ps))"
proof (cases "filter (\<lambda>t. usuario_id t = u \<and> tipo t = ''gasto'') ts = []")
  case True
  then have "groupby_categoria_sum ar (filter (\<lambda>t. usuario_id t = u \<and> tipo t = ''gasto'') ts) = []"
    by (simp add: groupby_categoria_sum_def)
  then show ?thesis using True
    by (simp add: verificar_presupuestos_def alerta_de_fila_Nil)
next
  case False
  then have "ts \<noteq> []" by auto
  with False show ?thesis
    by (simp add: verificar_presupuestos_def Let_def bucle_presupuestos_concat)
qed

lemma verificar_presupuestos_append:
  "verificar_presupuestos ar ts (ps1 @ ps2) u
     = verificar_presupuestos ar ts ps1 u @ verificar_presupuestos ar ts ps2 u"
  by (simp add: verificar_presupuestos_concat)

lemma verificar_presupuestos_Nil: "verificar_presupuestos ar ts [] u = []"
  by (simp add: verificar_presupuestos_def)

lemma gasto_de_fila:
  assumes "\<exists>t\<in>set ts. usuario_id t = u \<and> tipo t = ''gasto'' \<and> categoria t = c"
  shows "map_of (groupby_categoria_sum ar
                   (filter (\<lambda>t. usuario_id t = u \<and> tipo t = ''gasto'') ts)) c
           = Some (gasto_en ar ts u c)"
proof -
  have "c \<in> categoria ` set (filter (\<lambda>t. usuario_id t = u \<and> tipo t = ''gasto'') ts)"
    using assms by force
  moreover have "filter (\<lambda>t. categoria t = c) (filter (\<lambda>t. usuario_id t = u \<and> tipo t = ''gasto'') ts)
      = filter (\<lambda>t. usuario_id t = u \<and> tipo t = ''gasto'' \<and> categoria t = c) ts"
    by (simp add: conj_commute conj_left_commute)
  ultimately show ?thesis
    by (simp add: map_of_groupby_categoria_sum gasto_en_def)
qed

lemma verificar_presupuestos_fila:
  assumes "p_usuario_id p = u"
  shows "verificar_presupuestos ar ts (ps1 @ p # ps2) u
     = verificar_presupuestos ar ts ps1 u
       @ alerta_de_fila ar
           (groupby_categoria_sum ar (filter (\<lambda>t. usuario_id t = u \<and> tipo t = ''gasto'') ts)) p
       @ verificar_presupuestos ar ts ps2 u"
  using assms by (simp add: verificar_presupuestos_concat)

text \<open>The examples in doubles: one expense, so the spend is 0 + the amount.\<close>

lemma suma_grupo_doble_ej:
  "suma_grupo doble [120] = 120" "suma_grupo doble [80] = 80" "suma_grupo doble [79] = 79"
  "suma_grupo doble [50] = 50"
  by (simp_all add: doble_ops suma_doble_def rd_enteros)

lemma menos_doble_ej: "menos doble 120 100 = 20" "menos doble 50 0 = 50"
  by (simp_all add: doble_ops rd_enteros)

lemma utilizacion_doble_ej:
  "utilizacion doble 120 100 = Fin 120" "utilizacion doble 80 100 = Fin 80"
  "utilizacion doble 79 100 = Fin 79" "utilizacion doble 50 0 = PInf"
  by (simp_all add: utilizacion_def np_truediv_def doble_ops rd_entre [of 0] rd_entre [of 6]
        rd_frac [of _ 1] redondeo_par_def)

lemma verificar_ej:
  "verificar_presupuestos doble [ej_gasto m] [ej_presupuesto l] ''u1''
     = alerta_de_fila doble [(''Food'', suma_grupo doble [m])] (ej_presupuesto l)"
proof -
  have f: "filter (\<lambda>t. usuario_id t = ''u1'' \<and> tipo t = ''gasto'') [ej_gasto m] = [ej_gasto m]"
    by (simp add: ej_gasto_def)
  have p: "filter (\<lambda>p. p_usuario_id p = ''u1'') [ej_presupuesto l] = [ej_presupuesto l]"
    by (simp add: ej_presupuesto_def)
  show ?thesis
    unfolding verificar_presupuestos_concat f p groupby_ej by simp
qed

lemma verificar_ej_120:
  "verificar_presupuestos doble [ej_gasto 120] [ej_presupuesto 100] ''u1'' =
   [\<lparr>a_tipo = ''presupuesto_excedido'', severidad = ''alta'',
     mensaje = Has_excedido ''Food'' 20 (Fin 120),
     a_categoria = ''Food'', gasto_actual = 120, limite = 100\<rparr>]"
  unfolding verificar_ej suma_grupo_doble_ej
  by (simp add: alerta_de_fila_def ej_presupuesto_def menos_doble_ej utilizacion_doble_ej)

lemma verificar_ej_80:
  "verificar_presupuestos doble [ej_gasto 80] [ej_presupuesto 100] ''u1'' =
   [\<lparr>a_tipo = ''presupuesto_cerca_limite'', severidad = ''media'',
     mensaje = Estas_cerca ''Food'' 80 100 (Fin 80),
     a_categoria = ''Food'', gasto_actual = 80, limite = 100\<rparr>]"
  unfolding verificar_ej suma_grupo_doble_ej
  by (simp add: alerta_de_fila_def ej_presupuesto_def utilizacion_doble_ej)

lemma verificar_ej_79:
  "verificar_presupuestos doble [ej_gasto 79] [ej_presupuesto 100] ''u1'' = []"
  unfolding verificar_ej suma_grupo_doble_ej
  by (simp add: alerta_de_fila_def ej_presupuesto_def utilizacion_doble_ej)

lemma verificar_ej_0:
  "verificar_presupuestos doble [ej_gasto 50] [ej_presupuesto 0] ''u1'' =
   [\<lparr>a_tipo = ''presupuesto_excedido'', severidad = ''alta'',
     mensaje = Has_excedido ''Food'' 50 PInf,
     a_categoria = ''Food'', gasto_actual = 50, limite = 0\<rparr>]"
  unfolding verificar_ej suma_grupo_doble_ej
  by (simp add: alerta_de_fila_def ej_presupuesto_def menos_doble_ej utilizacion_doble_ej)

lemma utilizacion_exacta:
  assumes "0 < l"
  shows "utilizacion exacta g l = Fin (g / l * 100)"
    and "np_ge (utilizacion exacta g l) 80 \<longleftrightarrow> 80 / 100 * l \<le> g"
  using assms by (simp_all add: utilizacion_def np_truediv_def exacta_ops field_simps)

text \<open>
  Two inputs where the rounding decides. Expenses of 0.1 and 0.2 against a ceiling of 0.3:
  the sum is 0.30000000000000004, above the ceiling. An expense of 16.08 against a ceiling
  of 20.1: the quotient is 0.7999999999999998 and the percentage 79.99999999999999.
\<close>

lemma rd_limites:
  "rd (1 / 5) = 3602879701896397 / 18014398509481984"
  "rd (3 / 10) = 5404319552844595 / 18014398509481984"
  "rd (10808639105689191 / 36028797018963968) = 1351079888211149 / 4503599627370496"
  "rd (1 / 18014398509481984) = 1 / 18014398509481984"
  "rd (5404319552844596 / 5404319552844595) = 4503599627370497 / 4503599627370496"
  "rd (112589990684262425 / 1125899906842624) = 3518437208883201 / 35184372088832"
  by (simp_all add: rd_frac [of _ 3] rd_frac [of _ 2] rd_frac [of _ 54] rd_entre [of 0]
        rd_entre [of 6] redondeo_par_def)

lemma rd_limites_1608:
  "rd (402 / 25) = 1131529406376837 / 70368744177664"
  "rd (201 / 10) = 2828823515942093 / 140737488355328"
  "rd (1131529406376837 / 70368744177664) = 1131529406376837 / 70368744177664"
  "rd (2263058812753674 / 2828823515942093) = 900719925474099 / 1125899906842624"
  "rd (22517998136852475 / 281474976710656) = 5629499534213119 / 70368744177664"
  by (simp_all add: rd_entre [of 4] rd_frac [of _ 1] rd_entre [of 6] redondeo_par_def)

lemma groupby_ej_dos:
  "groupby_categoria_sum ar [ej_gasto m1, ej_gasto m2] = [(''Food'', suma_grupo ar [m1, m2])]"
  by (simp add: groupby_categoria_sum_def ej_gasto_def)

lemma verificar_ej_dos:
  "verificar_presupuestos doble [ej_gasto m1, ej_gasto m2] [ej_presupuesto l] ''u1''
     = alerta_de_fila doble [(''Food'', suma_grupo doble [m1, m2])] (ej_presupuesto l)"
proof -
  have f: "filter (\<lambda>t. usuario_id t = ''u1'' \<and> tipo t = ''gasto'') [ej_gasto m1, ej_gasto m2]
             = [ej_gasto m1, ej_gasto m2]"
    by (simp add: ej_gasto_def)
  have p: "filter (\<lambda>p. p_usuario_id p = ''u1'') [ej_presupuesto l] = [ej_presupuesto l]"
    by (simp add: ej_presupuesto_def)
  show ?thesis
    unfolding verificar_presupuestos_concat f p groupby_ej_dos by simp
qed

lemma literales_limites:
  "literal doble (1 / 10) = 3602879701896397 / 36028797018963968"
  "literal doble (2 / 10) = 3602879701896397 / 18014398509481984"
  "literal doble (3 / 10) = 5404319552844595 / 18014398509481984"
  "literal doble (1608 / 100) = 1131529406376837 / 70368744177664"
  "literal doble (201 / 10) = 2828823515942093 / 140737488355328"
  by (simp_all add: literal_def doble_ops rd_decimos rd_limites rd_limites_1608)

lemma suma_grupo_limites:
  "suma_grupo doble [3602879701896397 / 36028797018963968,
                     3602879701896397 / 18014398509481984]
     = 1351079888211149 / 4503599627370496"
  "suma_grupo doble [1131529406376837 / 70368744177664] = 1131529406376837 / 70368744177664"
  by (simp_all add: doble_ops suma_doble_def rd_sumas_decimos rd_limites rd_limites_1608)

lemma menos_limites:
  "menos doble (1351079888211149 / 4503599627370496) (5404319552844595 / 18014398509481984)
     = 1 / 18014398509481984"
  by (simp add: doble_ops rd_limites)

lemma utilizacion_limites:
  "utilizacion doble (1351079888211149 / 4503599627370496)
       (5404319552844595 / 18014398509481984)
     = Fin (3518437208883201 / 35184372088832)"
  "utilizacion doble (1131529406376837 / 70368744177664) (2828823515942093 / 140737488355328)
     = Fin (5629499534213119 / 70368744177664)"
  by (simp_all add: utilizacion_def np_truediv_def doble_ops rd_limites rd_limites_1608)

lemma verificar_ej_decimos:
  "verificar_presupuestos doble
       [ej_gasto (literal doble (1 / 10)), ej_gasto (literal doble (2 / 10))]
       [ej_presupuesto (literal doble (3 / 10))] ''u1''
     = [\<lparr>a_tipo = ''presupuesto_excedido'', severidad = ''alta'',
         mensaje = Has_excedido ''Food'' (1 / 18014398509481984)
                     (Fin (3518437208883201 / 35184372088832)),
         a_categoria = ''Food'', gasto_actual = 1351079888211149 / 4503599627370496,
         limite = 5404319552844595 / 18014398509481984\<rparr>]"
  unfolding verificar_ej_dos literales_limites suma_grupo_limites
  by (simp add: alerta_de_fila_def ej_presupuesto_def menos_limites utilizacion_limites)

lemma verificar_ej_1608:
  "verificar_presupuestos doble [ej_gasto (literal doble (1608 / 100))]
       [ej_presupuesto (literal doble (201 / 10))] ''u1'' = []"
  unfolding verificar_ej literales_limites suma_grupo_limites
  by (simp add: alerta_de_fila_def ej_presupuesto_def utilizacion_limites)

text \<open>
  An expense of \<open>4 - 1 / 2 ^ 51\<close> (3.9999999999999996) against a ceiling of 5: the spend is below
  80 per cent of the ceiling, the quotient is rounded to 0.7999999999999999 and the
  percentage to 80.
\<close>

lemma rd_limites_4:
  "rd (9007199254740991 / 2251799813685248) = 9007199254740991 / 2251799813685248"
  "rd (9007199254740991 / 11258999068426240) = 7205759403792793 / 9007199254740992"
  "rd (180143985094819825 / 2251799813685248) = 80"
  by (simp_all add: rd_entre [of 1] rd_frac [of _ 1] rd_entre [of 6] redondeo_par_def)

lemma verificar_ej_4:
  "verificar_presupuestos doble [ej_gasto (9007199254740991 / 2251799813685248)]
       [ej_presupuesto 5] ''u1''
     = [\<lparr>a_tipo = ''presupuesto_cerca_limite'', severidad = ''media'',
         mensaje = Estas_cerca ''Food'' (9007199254740991 / 2251799813685248) 5 (Fin 80),
         a_categoria = ''Food'', gasto_actual = 9007199254740991 / 2251799813685248,
         limite = 5\<rparr>]"
proof -
  have s: "suma_grupo doble [9007199254740991 / 2251799813685248]
             = 9007199254740991 / 2251799813685248"
    by (simp add: doble_ops suma_doble_def rd_limites_4)
  have u: "utilizacion doble (9007199254740991 / 2251799813685248) 5 = Fin 80"
    by (simp add: utilizacion_def np_truediv_def doble_ops rd_limites_4)
  show ?thesis
    unfolding verificar_ej s
    by (simp add: alerta_de_fila_def ej_presupuesto_def u)
qed

text \<open>
  Claim C2, as the code has it. Take a budget row of the user whose category occurs among
  the expenses of the user, \<open>g\<close> the spend of the user in that category, as the code sums
  it, and \<open>l\<close> the ceiling of the row. In the list of alerts the row stands, between the
  alerts of the rows before it and those of the rows after it, for exactly one alert
  "presupuesto_excedido" of severity "alta" with the overage \<open>g - l\<close> and the percentage
  when \<open>g > l\<close>; for exactly one alert "presupuesto_cerca_limite" of severity "media" when
  \<open>g\<close> does not exceed \<open>l\<close> and the percentage \<^verbatim>\<open>(gasto_actual / limite) * 100\<close>, as the
  code computes it, is at least 80; and for no alert when that percentage is not. Sum,
  overage and percentage are the rounded ones of the arithmetic; without rounding and for
  a positive ceiling the percentage is \<open>g / l * 100\<close> and it is at least 80 exactly when
  \<open>g\<close> is at least 80 per cent of \<open>l\<close>. In doubles an expense of 120 against a ceiling of
  100 gives the one alert with overage 20 and 120 per cent, an expense of 80 the one
  near-limit alert, an expense of 79 none.

  In doubles the rounding can move a spend across a threshold: expenses of 0.1 and 0.2
  against a ceiling of 0.3 give the alert "presupuesto_excedido", and an expense of
  3.9999999999999996 against a ceiling of 5, below 80 per cent of it, gives the alert
  "presupuesto_cerca_limite" with 80 per cent.
\<close>
theorem verificar_presupuestos_por_fila:
  assumes "p_usuario_id p = u"
    and "\<exists>t\<in>set ts. usuario_id t = u \<and> tipo t = ''gasto'' \<and> categoria t = p_categoria p"
    and "g = gasto_en ar ts u (p_categoria p)"
    and "l = monto_maximo p"
  shows "(g > l \<longrightarrow>
          verificar_presupuestos ar ts (ps1 @ p # ps2) u
            = verificar_presupuestos ar ts ps1 u
              @ [\<lparr>a_tipo = ''presupuesto_excedido'', severidad = ''alta'',
                  mensaje = Has_excedido (p_categoria p) (menos ar g l) (utilizacion ar g l),
                  a_categoria = p_categoria p, gasto_actual = g, limite = l\<rparr>]
              @ verificar_presupuestos ar ts ps2 u)
       \<and> (\<not> g > l \<and> np_ge (utilizacion ar g l) 80 \<longrightarrow>
          verificar_presupuestos ar ts (ps1 @ p # ps2) u
            = verificar_presupuestos ar ts ps1 u
              @ [\<lparr>a_tipo = ''presupuesto_cerca_limite'', severidad = ''media'',
                  mensaje = Estas_cerca (p_categoria p) g l (utilizacion ar g l),
                  a_categoria = p_categoria p, gasto_actual = g, limite = l\<rparr>]
              @ verificar_presupuestos ar ts ps2 u)
       \<and> (\<not> g > l \<and> \<not> np_ge (utilizacion ar g l) 80 \<longrightarrow>
          verificar_presupuestos ar ts (ps1 @ p # ps2) u
            = verificar_presupuestos ar ts ps1 u @ verificar_presupuestos ar ts ps2 u)
       \<and> (0 < l \<longrightarrow> utilizacion exacta g l = Fin (g / l * 100)
                  \<and> (np_ge (utilizacion exacta g l) 80 \<longleftrightarrow> 80 / 100 * l \<le> g))
       \<and> verificar_presupuestos doble [ej_gasto 120] [ej_presupuesto 100] ''u1''
           = [\<lparr>a_tipo = ''presupuesto_excedido'', severidad = ''alta'',
               mensaje = Has_excedido ''Food'' 20 (Fin 120),
               a_categoria = ''Food'', gasto_actual = 120, limite = 100\<rparr>]
       \<and> verificar_presupuestos doble [ej_gasto 80] [ej_presupuesto 100] ''u1''
           = [\<lparr>a_tipo = ''presupuesto_cerca_limite'', severidad = ''media'',
               mensaje = Estas_cerca ''Food'' 80 100 (Fin 80),
               a_categoria = ''Food'', gasto_actual = 80, limite = 100\<rparr>]
       \<and> verificar_presupuestos doble [ej_gasto 79] [ej_presupuesto 100] ''u1'' = []"
proof -
  let ?gpc = "groupby_categoria_sum ar (filter (\<lambda>t. usuario_id t = u \<and> tipo t = ''gasto'') ts)"
  have m: "map_of ?gpc (p_categoria p) = Some g"
    using gasto_de_fila [OF assms(2)] assms(3) by simp
  have f: "verificar_presupuestos ar ts (ps1 @ p # ps2) u
     = verificar_presupuestos ar ts ps1 u @ alerta_de_fila ar ?gpc p
       @ verificar_presupuestos ar ts ps2 u"
    by (rule verificar_presupuestos_fila [OF assms(1)])
  have a1: "g > l \<Longrightarrow> alerta_de_fila ar ?gpc p
      = [\<lparr>a_tipo = ''presupuesto_excedido'', severidad = ''alta'',
          mensaje = Has_excedido (p_categoria p) (menos ar g l) (utilizacion ar g l),
          a_categoria = p_categoria p, gasto_actual = g, limite = l\<rparr>]"
    using m assms(4) by (simp add: alerta_de_fila_def)
  have a2: "\<not> g > l \<Longrightarrow> np_ge (utilizacion ar g l) 80 \<Longrightarrow> alerta_de_fila ar ?gpc p
      = [\<lparr>a_tipo = ''presupuesto_cerca_limite'', severidad = ''media'',
          mensaje = Estas_cerca (p_categoria p) g l (utilizacion ar g l),
          a_categoria = p_categoria p, gasto_actual = g, limite = l\<rparr>]"
    using m assms(4) by (simp add: alerta_de_fila_def)
  have a3: "\<not> g > l \<Longrightarrow> \<not> np_ge (utilizacion ar g l) 80 \<Longrightarrow> alerta_de_fila ar ?gpc p = []"
    using m assms(4) by (simp add: alerta_de_fila_def)
  show ?thesis
    apply (intro conjI impI)
    subgoal by (simp add: f a1)
    subgoal by (simp add: f a2)
    subgoal by (simp add: f a3)
    subgoal by (rule utilizacion_exacta)
    subgoal by (rule utilizacion_exacta)
    subgoal by (rule verificar_ej_120)
    subgoal by (rule verificar_ej_80)
    subgoal by (rule verificar_ej_79)
    done
qed

lemma gasto_en_ej: "gasto_en ar [ej_gasto m] ''u1'' ''Food'' = suma_grupo ar [m]"
  by (simp add: gasto_en_def ej_gasto_def)

theorem verificar_presupuestos_por_fila_witness:
  "p_usuario_id (ej_presupuesto 100) = ''u1''
   \<and> (\<exists>t\<in>set [ej_gasto 120]. usuario_id t = ''u1'' \<and> tipo t = ''gasto''
          \<and> categoria t = p_categoria (ej_presupuesto 100))
   \<and> gasto_en doble [ej_gasto 120] ''u1'' (p_categoria (ej_presupuesto 100)) = 120
   \<and> monto_maximo (ej_presupuesto 100) = 100
   \<and> (120::real) > 100
   \<and> verificar_presupuestos doble [ej_gasto 120] ([] @ ej_presupuesto 100 # []) ''u1''
       = verificar_presupuestos doble [ej_gasto 120] [] ''u1''
         @ [\<lparr>a_tipo = ''presupuesto_excedido'', severidad = ''alta'',
             mensaje = Has_excedido ''Food'' 20 (Fin 120),
             a_categoria = ''Food'', gasto_actual = 120, limite = 100\<rparr>]
         @ verificar_presupuestos doble [ej_gasto 120] [] ''u1''"
proof -
  have h1: "p_usuario_id (ej_presupuesto 100) = ''u1''"
    and c: "p_categoria (ej_presupuesto 100) = ''Food''"
    and h4: "monto_maximo (ej_presupuesto 100) = 100"
    by (simp_all add: ej_presupuesto_def)
  have h2: "\<exists>t\<in>set [ej_gasto 120]. usuario_id t = ''u1'' \<and> tipo t = ''gasto''
          \<and> categoria t = p_categoria (ej_presupuesto 100)"
    by (simp add: ej_gasto_def ej_presupuesto_def)
  have h3: "(120::real) = gasto_en doble [ej_gasto 120] ''u1'' (p_categoria (ej_presupuesto 100))"
    by (simp add: c gasto_en_ej suma_grupo_doble_ej)
  from verificar_presupuestos_por_fila [OF h1 h2 h3 h4 [symmetric], of "[]" "[]"]
  show ?thesis using h1 h2 h3 h4 c by (simp add: menos_doble_ej utilizacion_doble_ej)
qed

theorem verificar_presupuestos_umbral_redondeado:
  "verificar_presupuestos doble
       [ej_gasto (literal doble (1 / 10)), ej_gasto (literal doble (2 / 10))]
       [ej_presupuesto (literal doble (3 / 10))] ''u1''
     = [\<lparr>a_tipo = ''presupuesto_excedido'', severidad = ''alta'',
         mensaje = Has_excedido ''Food'' (1 / 18014398509481984)
                     (Fin (3518437208883201 / 35184372088832)),
         a_categoria = ''Food'', gasto_actual = 1351079888211149 / 4503599627370496,
         limite = 5404319552844595 / 18014398509481984\<rparr>]
   \<and> \<not> (1 / 10 + 2 / 10 > (3 / 10 :: real))
   \<and> verificar_presupuestos doble [ej_gasto (9007199254740991 / 2251799813685248)]
         [ej_presupuesto 5] ''u1''
     = [\<lparr>a_tipo = ''presupuesto_cerca_limite'', severidad = ''media'',
         mensaje = Estas_cerca ''Food'' (9007199254740991 / 2251799813685248) 5 (Fin 80),
         a_categoria = ''Food'', gasto_actual = 9007199254740991 / 2251799813685248,
         limite = 5\<rparr>]
   \<and> (9007199254740991 / 2251799813685248 :: real) < 80 / 100 * 5"
proof -
  have "\<not> (1 / 10 + 2 / 10 > (3 / 10 :: real))" by simp
  moreover have "(9007199254740991 / 2251799813685248 :: real) < 80 / 100 * 5" by simp
  ultimately show ?thesis
    using verificar_ej_decimos verificar_ej_4 by blast
qed

text \<open>
  Claim C10. Every budget row of the user is treated on its own: the alerts for a list of
  rows are the alerts for its parts, one after the other. So a row that occurs twice gives
  its alert twice; two budget rows of user "u1" for "Food" with ceiling 100 and an expense
  of 120 give two equal alerts.
\<close>
theorem verificar_presupuestos_filas_duplicadas:
  "verificar_presupuestos ar ts (ps1 @ ps2) u
     = verificar_presupuestos ar ts ps1 u @ verificar_presupuestos ar ts ps2 u
   \<and> verificar_presupuestos ar ts (p # p # ps) u
     = verificar_presupuestos ar ts [p] u @ verificar_presupuestos ar ts [p] u
       @ verificar_presupuestos ar ts ps u
   \<and> verificar_presupuestos doble [ej_gasto 120] [ej_presupuesto 100, ej_presupuesto 100] ''u1''
     = [\<lparr>a_tipo = ''presupuesto_excedido'', severidad = ''alta'',
         mensaje = Has_excedido ''Food'' 20 (Fin 120),
         a_categoria = ''Food'', gasto_actual = 120, limite = 100\<rparr>,
        \<lparr>a_tipo = ''presupuesto_excedido'', severidad = ''alta'',
         mensaje = Has_excedido ''Food'' 20 (Fin 120),
         a_categoria = ''Food'', gasto_actual = 120, limite = 100\<rparr>]"
proof (intro conjI)
  show "verificar_presupuestos ar ts (ps1 @ ps2) u
     = verificar_presupuestos ar ts ps1 u @ verificar_presupuestos ar ts ps2 u"
    by (rule verificar_presupuestos_append)
  show "verificar_presupuestos ar ts (p # p # ps) u
     = verificar_presupuestos ar ts [p] u @ verificar_presupuestos ar ts [p] u
       @ verificar_presupuestos ar ts ps u"
    using verificar_presupuestos_append [of ar ts "[p]" "p # ps" u]
          verificar_presupuestos_append [of ar ts "[p]" ps u] by simp
  show "verificar_presupuestos doble [ej_gasto 120] [ej_presupuesto 100, ej_presupuesto 100] ''u1''
     = [\<lparr>a_tipo = ''presupuesto_excedido'', severidad = ''alta'',
         mensaje = Has_excedido ''Food'' 20 (Fin 120),
         a_categoria = ''Food'', gasto_actual = 120, limite = 100\<rparr>,
        \<lparr>a_tipo = ''presupuesto_excedido'', severidad = ''alta'',
         mensaje = Has_excedido ''Food'' 20 (Fin 120),
         a_categoria = ''Food'', gasto_actual = 120, limite = 100\<rparr>]"
    using verificar_presupuestos_append
            [of doble "[ej_gasto 120]" "[ej_presupuesto 100]" "[ej_presupuesto 100]" "''u1''"]
    by (simp add: verificar_ej_120)
qed

theorem verificar_presupuestos_filas_duplicadas_witness:
  "verificar_presupuestos doble [ej_gasto 80] [ej_presupuesto 100, ej_presupuesto 100] ''u1''
     = [\<lparr>a_tipo = ''presupuesto_cerca_limite'', severidad = ''media'',
         mensaje = Estas_cerca ''Food'' 80 100 (Fin 80),
         a_categoria = ''Food'', gasto_actual = 80, limite = 100\<rparr>,
        \<lparr>a_tipo = ''presupuesto_cerca_limite'', severidad = ''media'',
         mensaje = Estas_cerca ''Food'' 80 100 (Fin 80),
         a_categoria = ''Food'', gasto_actual = 80, limite = 100\<rparr>]"
  using verificar_presupuestos_filas_duplicadas
          [of doble "[ej_gasto 80]" "[]" "[]" "''u1''" "ej_presupuesto 100" "[]"]
  by (simp add: verificar_ej_80 verificar_presupuestos_Nil)

text \<open>
  Claim C6, evaluated. For a budget row with \<open>monto_maximo = 0\<close> and an expense of 50 in its
  category \<^verbatim>\<open>verificar_presupuestos\<close> divides without any guard: the percentage is
  \<^verbatim>\<open>inf\<close>, not zero, and it is printed in the alert "presupuesto_excedido".
\<close>
theorem verificar_presupuestos_limite_cero:
  "verificar_presupuestos doble [ej_gasto 50] [ej_presupuesto 0] ''u1''
     = [\<lparr>a_tipo = ''presupuesto_excedido'', severidad = ''alta'',
         mensaje = Has_excedido ''Food'' 50 PInf,
         a_categoria = ''Food'', gasto_actual = 50, limite = 0\<rparr>]
   \<and> np_por_100 doble (np_truediv doble 50 (monto_maximo (ej_presupuesto 0))) = PInf
   \<and> PInf \<noteq> Fin 0"
proof -
  have "np_por_100 doble (np_truediv doble 50 (monto_maximo (ej_presupuesto 0))) = PInf"
    by (simp add: np_truediv_def ej_presupuesto_def)
  then show ?thesis by (simp add: verificar_ej_0)
qed

theorem verificar_presupuestos_limite_cero_witness:
  "map mensaje (verificar_presupuestos doble [ej_gasto 50] [ej_presupuesto 0] ''u1'')
     = [Has_excedido ''Food'' 50 PInf]"
  using verificar_presupuestos_limite_cero by simp

section \<open>The outliers\<close>

lemma sqrt_196020: "396 < sqrt 196020"
  by (rule real_less_rsqrt) simp

lemma montos_cinco_gastos:
  "map monto (filter (\<lambda>t. tipo t = ''gasto'') ej_cinco_gastos) = [10, 10, 10, 10, 1000]"
  by (simp add: ej_cinco_gastos_def ej_gasto_def)

lemma mean_cinco: "mean exacta [10, 10, 10, 10, 1000] = 208"
  by (simp add: mean_def exacta_ops)

lemma std_cinco: "std exacta [10, 10, 10, 10, 1000] = Some (sqrt 196020)"
  by (simp add: std_def mean_cinco exacta_ops)

text \<open>No amount of the five is above a threshold above 1000.\<close>

lemma ninguno_sobre_umbral:
  assumes "map monto gs = [10, 10, 10, 10, 1000]" and "1000 \<le> u"
  shows "filter (\<lambda>t. monto t > u) gs = []"
proof -
  have "\<not> monto t > u" if "t \<in> set gs" for t
  proof -
    from that have "monto t \<in> set (map monto gs)" by simp
    then have "monto t \<in> {10, 1000}" unfolding assms(1) by simp
    then have "monto t \<le> 1000" by auto
    with assms(2) show ?thesis by linarith
  qed
  then show ?thesis by (simp only: filter_empty_conv) blast
qed

lemma detectar_gastos_inusuales_umbral:
  assumes "map monto (filter (\<lambda>t. tipo t = ''gasto'') df) = [10, 10, 10, 10, 1000]"
  shows "detectar_gastos_inusuales exacta (Filas df) 2 = Inr []"
proof -
  let ?g = "filter (\<lambda>t. tipo t = ''gasto'') df"
  have ne: "?g \<noteq> []" using assms by auto
  have "1000 \<le> 208 + 2 * sqrt 196020" using sqrt_196020 by simp
  then have "filter (\<lambda>t. monto t > 208 + 2 * sqrt 196020) ?g = []"
    by (rule ninguno_sobre_umbral [OF assms])
  with ne show ?thesis
    unfolding detectar_gastos_inusuales.simps Let_def assms mean_cinco std_cinco
    by (simp add: exacta_ops)
qed

text \<open>The same computation in doubles; the root is known up to its rounding.\<close>

lemma redondeo_par_cota: "\<bar>real_of_int (redondeo_par y) - y\<bar> \<le> 1"
  unfolding redondeo_par_def Let_def by (simp split: if_splits)

lemma rd_cota:
  fixes k :: nat
  assumes "2 ^ k \<le> \<bar>x\<bar>" and "\<bar>x\<bar> < 2 * 2 ^ k" and "k \<le> 52"
  shows "\<bar>rd x - x\<bar> \<le> 1"
proof -
  let ?y = "x * 2 ^ 52 / 2 ^ k"
  have c: "(2::real) ^ k / 2 ^ 52 \<le> 1"
    using power_increasing [OF assms(3), of "2::real"] by simp
  have eq: "rd x - x = (real_of_int (redondeo_par ?y) - ?y) * (2 ^ k / 2 ^ 52)"
    unfolding rd_entre [OF assms(1,2)] by (simp add: field_simps)
  have "\<bar>rd x - x\<bar> = \<bar>real_of_int (redondeo_par ?y) - ?y\<bar> * \<bar>(2::real) ^ k / 2 ^ 52\<bar>"
    unfolding eq by (rule abs_mult)
  also have "\<dots> = \<bar>real_of_int (redondeo_par ?y) - ?y\<bar> * (2 ^ k / 2 ^ 52)"
    by simp
  also have "\<dots> \<le> 1 * 1"
    by (rule mult_mono [OF redondeo_par_cota c]) simp_all
  finally show ?thesis by simp
qed

lemma rd_enteros_cinco:
  "rd 30 = 30" "rd 40 = 40" "rd 1040 = 1040" "rd 208 = 208" "rd 198 = 198"
  "rd (- 792) = - 792" "rd 39204 = 39204" "rd 627264 = 627264" "rd 78408 = 78408"
  "rd 117612 = 117612" "rd 156816 = 156816" "rd 784080 = 784080" "rd 196020 = 196020"
  by (simp_all add: rd_entre [of 4] rd_entre [of 5] rd_entre [of 10] rd_entre [of 7]
        rd_entre [of 9] rd_entre [of 15] rd_entre [of 19] rd_entre [of 16] rd_entre [of 17]
        redondeo_par_def)

lemma mean_cinco_doble: "mean doble [10, 10, 10, 10, 1000] = 208"
  by (simp add: mean_def doble_ops suma_doble_def rd_enteros rd_enteros_cinco)

lemma std_cinco_doble: "std doble [10, 10, 10, 10, 1000] = Some (rd (sqrt 196020))"
  by (simp add: std_def mean_cinco_doble doble_ops suma_doble_def rd_enteros_cinco)

lemma umbral_cinco_doble: "1000 \<le> rd (208 + rd (2 * rd (sqrt 196020)))"
proof -
  have a: "442 \<le> sqrt 196020" by (rule real_le_rsqrt) simp
  have b: "sqrt 196020 < 443" by (rule real_less_lsqrt) simp_all
  have "\<bar>rd (sqrt 196020) - sqrt 196020\<bar> \<le> 1"
    using a b by (intro rd_cota [of 8]) simp_all
  then have s: "441 \<le> rd (sqrt 196020)" "rd (sqrt 196020) \<le> 444"
    using a b by simp_all
  have "\<bar>rd (2 * rd (sqrt 196020)) - 2 * rd (sqrt 196020)\<bar> \<le> 1"
    using s by (intro rd_cota [of 9]) simp_all
  then have v: "881 \<le> rd (2 * rd (sqrt 196020))" "rd (2 * rd (sqrt 196020)) \<le> 889"
    using s by simp_all
  have "\<bar>rd (208 + rd (2 * rd (sqrt 196020))) - (208 + rd (2 * rd (sqrt 196020)))\<bar>
          \<le> 1"
    using v by (intro rd_cota [of 10]) simp_all
  then show ?thesis using v by simp
qed

lemma detectar_gastos_inusuales_umbral_doble:
  assumes "map monto (filter (\<lambda>t. tipo t = ''gasto'') df) = [10, 10, 10, 10, 1000]"
  shows "detectar_gastos_inusuales doble (Filas df) 2 = Inr []"
proof -
  let ?g = "filter (\<lambda>t. tipo t = ''gasto'') df"
  have ne: "?g \<noteq> []" using assms by auto
  have "filter (\<lambda>t. monto t > rd (208 + rd (2 * rd (sqrt 196020)))) ?g = []"
    using assms umbral_cinco_doble by (rule ninguno_sobre_umbral)
  with ne show ?thesis
    unfolding detectar_gastos_inusuales.simps Let_def assms mean_cinco_doble std_cinco_doble
    by (simp add: doble_ops)
qed


text \<open>
  Claim C5, as the code has it. On five expenses of 10, 10, 10, 10 and 1000, with
  \<open>umbral_desviacion = 2\<close>, \<^verbatim>\<open>detectar_gastos_inusuales\<close> returns no record: the mean is
  208, the sample standard deviation is the root of 196020 (about 442.7), and the threshold
  \<open>208 + 2 * sqrt 196020\<close> (about 1093.5) is above 1000. In doubles the mean is 208 as well,
  the deviation is the rounded root, and the rounded threshold is still above 1000, so no
  record is returned there either.
\<close>
theorem detectar_gastos_inusuales_cinco:
  assumes "map monto (filter (\<lambda>t. tipo t = ''gasto'') df) = [10, 10, 10, 10, 1000]"
  shows "mean exacta (map monto (filter (\<lambda>t. tipo t = ''gasto'') df)) = 208
     \<and> std exacta (map monto (filter (\<lambda>t. tipo t = ''gasto'') df)) = Some (sqrt 196020)
     \<and> 1000 < 208 + 2 * sqrt 196020
     \<and> detectar_gastos_inusuales exacta (Filas df) 2 = Inr []
     \<and> mean doble (map monto (filter (\<lambda>t. tipo t = ''gasto'') df)) = 208
     \<and> std doble (map monto (filter (\<lambda>t. tipo t = ''gasto'') df)) = Some (rd (sqrt 196020))
     \<and> 1000 \<le> mas doble 208 (por doble 2 (rd (sqrt 196020)))
     \<and> detectar_gastos_inusuales doble (Filas df) 2 = Inr []"
  using detectar_gastos_inusuales_umbral [OF assms] sqrt_196020
    detectar_gastos_inusuales_umbral_doble [OF assms] umbral_cinco_doble
  by (simp add: assms mean_cinco std_cinco mean_cinco_doble std_cinco_doble doble_ops)

theorem detectar_gastos_inusuales_cinco_witness:
  "map monto (filter (\<lambda>t. tipo t = ''gasto'') ej_cinco_gastos) = [10, 10, 10, 10, 1000]
   \<and> mean exacta (map monto (filter (\<lambda>t. tipo t = ''gasto'') ej_cinco_gastos)) = 208
   \<and> detectar_gastos_inusuales exacta (Filas ej_cinco_gastos) 2 = Inr []
   \<and> detectar_gastos_inusuales doble (Filas ej_cinco_gastos) 2 = Inr []"
  using detectar_gastos_inusuales_cinco [OF montos_cinco_gastos] montos_cinco_gastos
  by simp

theorem detectar_gastos_inusuales_no_marca_1000:
  "detectar_gastos_inusuales doble (Filas ej_cinco_gastos) 2 = Inr []
   \<and> detectar_gastos_inusuales doble (Filas ej_cinco_gastos) 2 \<noteq> Inr [ej_gasto 1000]"
  using detectar_gastos_inusuales_umbral_doble [OF montos_cinco_gastos] by simp

section \<open>Effects on the frames\<close>

lemma to_datetime_length: "to_datetime parse cs = Some ms \<Longrightarrow> length ms = length cs"
proof (induction cs arbitrary: ms)
  case Nil
  then show ?case by simp
next
  case (Cons c cs)
  then show ?case by (auto split: option.splits)
qed

lemma fecha_zip:
  assumes "length df = length ms"
  shows "map fecha (map (\<lambda>(t, m). t\<lparr>fecha := Marca m\<rparr>) (zip df ms)) = map Marca ms"
  using assms by (induction df ms rule: list_induct2) simp_all

lemma calcular_tendencia_marco:
  assumes "calcular_tendencia ar parse ahora1 ahora2 df dias = Inr (df', r)"
  shows "(df = [] \<and> df' = df)
       \<or> (df \<noteq> [] \<and> (\<exists>ms. to_datetime parse (map fecha df) = Some ms
              \<and> df' = map (\<lambda>(t, m). t\<lparr>fecha := Marca m\<rparr>) (zip df ms)))"
proof (cases "df = []")
  case True
  with assms show ?thesis by (simp add: calcular_tendencia_def)
next
  case False
  show ?thesis
  proof (cases "to_datetime parse (map fecha df)")
    case None
    with False assms show ?thesis by (simp add: calcular_tendencia_def)
  next
    case (Some ms)
    with False assms have "df' = map (\<lambda>(t, m). t\<lparr>fecha := Marca m\<rparr>) (zip df ms)"
      by (simp add: calcular_tendencia_def Let_def split: if_splits)
    with False Some show ?thesis by simp
  qed
qed

lemma calcular_tendencia_ej:
  "calcular_tendencia doble parse_ejemplo 1706000000000000 1706000000000000 [ej_gasto 10] 30
     = Inr ([(ej_gasto 10)\<lparr>fecha := Marca 1705276800000000\<rparr>],
            \<lparr>tendencia = ''sin_datos'', variacion_porcentual = 0,
             gasto_periodo_1 = None, gasto_periodo_2 = None\<rparr>)"
proof -
  have p: "to_datetime parse_ejemplo (map fecha [ej_gasto 10]) = Some [1705276800000000]"
    by (simp add: parse_ejemplo_def ej_gasto_def)
  show ?thesis
    unfolding calcular_tendencia_def p
    by (simp add: timedelta_days_def doble_def suma_doble_def)
qed

text \<open>
  Claim C8, evaluated. \<^verbatim>\<open>calcular_tendencia\<close> assigns to the column \<^verbatim>\<open>fecha\<close> of the frame
  it was given (db\_helpers.py, line 174), with no copy before. Whenever the call returns on
  a frame with a date held as text, the caller's frame is not what it was before the call:
  it has as many rows, and its column \<^verbatim>\<open>fecha\<close> holds the parsed timestamps. On the single
  expense of 10 dated \<^verbatim>\<open>2024-01-15\<close> the call returns \<^verbatim>\<open>sin_datos\<close> and leaves the
  caller's column \<^verbatim>\<open>fecha\<close> holding the timestamp instead of the text.
\<close>
theorem calcular_tendencia_escribe_fecha:
  assumes "calcular_tendencia ar parse ahora1 ahora2 df dias = Inr (df', r)"
    and "t \<in> set df" and "fecha t = Texto s"
  shows "df' \<noteq> df
     \<and> length df' = length df
     \<and> (\<exists>ms. to_datetime parse (map fecha df) = Some ms \<and> map fecha df' = map Marca ms)
     \<and> calcular_tendencia doble parse_ejemplo 1706000000000000 1706000000000000
           [ej_gasto 10] 30
         = Inr ([(ej_gasto 10)\<lparr>fecha := Marca 1705276800000000\<rparr>],
                \<lparr>tendencia = ''sin_datos'', variacion_porcentual = 0,
                 gasto_periodo_1 = None, gasto_periodo_2 = None\<rparr>)"
proof -
  have ne: "df \<noteq> []" using assms(2) by auto
  with calcular_tendencia_marco [OF assms(1)]
  obtain ms where ms: "to_datetime parse (map fecha df) = Some ms"
    and d: "df' = map (\<lambda>(t, m). t\<lparr>fecha := Marca m\<rparr>) (zip df ms)"
    by blast
  have l: "length df = length ms" using to_datetime_length [OF ms] by simp
  have f: "map fecha df' = map Marca ms" unfolding d by (rule fecha_zip [OF l])
  have "Texto s \<in> set (map fecha df)" using assms(2,3) by force
  moreover have "Texto s \<notin> set (map fecha df')" unfolding f by auto
  ultimately have "df' \<noteq> df" by auto
  moreover have "length df' = length df" using l by (simp add: d)
  ultimately show ?thesis using ms f calcular_tendencia_ej by blast
qed

theorem calcular_tendencia_escribe_fecha_witness:
  "calcular_tendencia doble parse_ejemplo 1706000000000000 1706000000000000 [ej_gasto 10] 30
     = Inr ([(ej_gasto 10)\<lparr>fecha := Marca 1705276800000000\<rparr>],
            \<lparr>tendencia = ''sin_datos'', variacion_porcentual = 0,
             gasto_periodo_1 = None, gasto_periodo_2 = None\<rparr>)
   \<and> ej_gasto 10 \<in> set [ej_gasto 10]
   \<and> fecha (ej_gasto 10) = Texto ''2024-01-15''
   \<and> [(ej_gasto 10)\<lparr>fecha := Marca 1705276800000000\<rparr>] \<noteq> [ej_gasto 10]"
proof -
  have e: "calcular_tendencia doble parse_ejemplo 1706000000000000 1706000000000000
             [ej_gasto 10] 30
           = Inr ([(ej_gasto 10)\<lparr>fecha := Marca 1705276800000000\<rparr>],
                  \<lparr>tendencia = ''sin_datos'', variacion_porcentual = 0,
                   gasto_periodo_1 = None, gasto_periodo_2 = None\<rparr>)"
    by (rule calcular_tendencia_ej)
  have m: "ej_gasto 10 \<in> set [ej_gasto 10]" by simp
  have t: "fecha (ej_gasto 10) = Texto ''2024-01-15''" by (simp add: ej_gasto_def)
  from calcular_tendencia_escribe_fecha [OF e m t]
  have "[(ej_gasto 10)\<lparr>fecha := Marca 1705276800000000\<rparr>] \<noteq> [ej_gasto 10]" by blast
  with e m t show ?thesis by blast
qed

end
